theory Spec2Isabelle
  imports Complex_Main "HOL-Library.Word" "HOL-Library.Signed_Division"
begin

section \<open>The panel of t2play: data model\<close>

text \<open>
  The development follows \<^verbatim>\<open>main.c\<close>. C values of type \<^verbatim>\<open>int\<close> are
  modelled as \<^typ>\<open>int\<close>: signed overflow is undefined in C, so the model describes
  the runs in which no \<^verbatim>\<open>int\<close> computation overflows, and says nothing about a
  run in which one does. A theorem about the spacer width or the layout cursor, whose
  values grow with the panel width and the number of items, therefore carries a bound
  under which every \<^verbatim>\<open>int\<close> of the pass stays below \<open>2 ^ 31\<close>. Values of type
  \<^verbatim>\<open>uint32_t\<close> are \<^typ>\<open>32 word\<close> and wrap around; the cast
  \<^verbatim>\<open>(int)panel->width\<close> is \<^const>\<open>sint\<close>. A pointer that may be
  \<^verbatim>\<open>NULL\<close> is an \<^typ>\<open>'a option\<close>. A \<^verbatim>\<open>wl_list\<close> is a list
  in iteration order; \<^verbatim>\<open>wl_list_insert(list.prev, elm)\<close> appends.
\<close>

definition BUTTON_PADDING :: int where
  "BUTTON_PADDING = 8"

definition BUTTON_MAX_WIDTH :: int where
  "BUTTON_MAX_WIDTH = 200"

text \<open>
  \<^verbatim>\<open>struct conf\<close>. The field \<^verbatim>\<open>text\<close> is called \<open>text_color\<close> here,
  since \<open>text\<close> is a keyword. The font description, the output name, the anchors and
  the layer only reach the libraries and are left out.
\<close>

record conf =
  background :: "32 word"
  text_color :: "32 word"
  button_background :: "32 word"
  button_active :: "32 word"
  panel_items :: "string option"

text \<open>
  \<^verbatim>\<open>struct toplevel\<close>. The handle is the identity of the
  \<^verbatim>\<open>zwlr_foreign_toplevel_handle_v1\<close> proxy; the listener's \<^verbatim>\<open>data\<close>
  pointer of a handle is the toplevel that holds it.
\<close>

record toplevel =
  handle :: nat
  title :: "string option"
  app_id :: "string option"
  active :: bool

text \<open>
  \<^verbatim>\<open>struct widget\<close>, fields \<^verbatim>\<open>x\<close>, \<^verbatim>\<open>width\<close> and
  \<^verbatim>\<open>toplevel\<close>. The pointer to the toplevel is kept as the handle of that toplevel,
  which is what a click reads through it; \<open>None\<close> is \<^verbatim>\<open>NULL\<close>.
\<close>

record widget =
  widget_x :: int
  widget_width :: int
  widget_toplevel :: "nat option"

text \<open>\<^verbatim>\<open>struct seat\<close> with the coordinates of its \<^verbatim>\<open>struct pointer\<close>.\<close>

record seat =
  wl_seat :: nat
  pointer_x :: int
  pointer_y :: int

text \<open>
  The calls made on a cairo context, in order. \<open>Set_source_u32 c\<close> is the program's
  \<^verbatim>\<open>cairo_set_source_u32(cairo, c)\<close>, which sets the source colour to the four bytes
  of \<open>c\<close> (red, green, blue, alpha), each over 255. \<open>Render_text s\<close> is
  \<^verbatim>\<open>render_text(cairo, font, 1, false, "%s", s)\<close>. Coordinates are doubles in cairo;
  all values that occur are integers or halves of integers below \<open>2 ^ 33\<close>, which doubles
  represent exactly, so they are rationals here.
\<close>

datatype cairo_operator = OPERATOR_CLEAR | OPERATOR_SOURCE

datatype cairo_op =
    Scale int int
  | Save
  | Restore
  | Set_operator cairo_operator
  | Set_source_u32 "32 word"
  | Paint
  | Rectangle rat rat rat rat
  | Fill
  | Clip
  | Move_to rat rat
  | Render_text string

text \<open>Requests sent to the compositor that the claims speak about.\<close>

datatype request =
    Activate nat nat \<comment> \<open>\<^verbatim>\<open>zwlr_foreign_toplevel_handle_v1_activate(handle, wl_seat)\<close>\<close>

text \<open>
  What the program reads from outside, and the declarations of headers that are not part
  of the sources:
  \<^item> \<open>text_size s\<close>: width and height that \<^verbatim>\<open>get_text_size\<close> stores for the text
    \<open>s\<close> (pango's pixel size of the layout, for the configured font, scale 1, no markup).
    \<^verbatim>\<open>g_strdup_vprintf\<close> ends the process when it has no memory, so the early
    return of \<^verbatim>\<open>get_text_size\<close> and \<^verbatim>\<open>render_text\<close> is no branch here;
  \<^item> \<open>local_time k\<close>: hour and minute of the broken-down local time that the \<open>k\<close>-th
    pair of calls \<^verbatim>\<open>time(NULL)\<close>, \<^verbatim>\<open>localtime\<close> of the run returns;
  \<^item> \<open>alloc_ok k\<close>: whether the \<open>k\<close>-th allocation (\<^verbatim>\<open>calloc\<close>,
    \<^verbatim>\<open>strdup\<close>) of the run succeeds;
  \<^item> \<open>buffer_ok k\<close>: whether the \<open>k\<close>-th call of \<^verbatim>\<open>get_next_buffer\<close>
    (\<^verbatim>\<open>pool.c\<close>) returns a buffer;
  \<^item> \<open>STATE_ACTIVATED\<close>: \<^verbatim>\<open>ZWLR_FOREIGN_TOPLEVEL_HANDLE_V1_STATE_ACTIVATED\<close>
    of the generated protocol header;
  \<^item> \<open>BUTTON_STATE_PRESSED\<close>: \<^verbatim>\<open>WL_POINTER_BUTTON_STATE_PRESSED\<close> of
    \<^verbatim>\<open>wayland-client.h\<close>.
\<close>

record world =
  text_size :: "string \<Rightarrow> int \<times> int"
  local_time :: "nat \<Rightarrow> nat \<times> nat"
  alloc_ok :: "nat \<Rightarrow> bool"
  buffer_ok :: "nat \<Rightarrow> bool"
  STATE_ACTIVATED :: "32 word"
  BUTTON_STATE_PRESSED :: "32 word"

text \<open>
  A frame handed to the compositor: the size of the buffer, the buffer scale set on the
  surface, and the recording that was painted on the buffer.
\<close>

record frame =
  frame_width :: "32 word"
  frame_height :: "32 word"
  frame_scale :: "32 word"
  frame_ops :: "cairo_op list"

text \<open>
  \<^verbatim>\<open>struct panel\<close>, with the seats of \<^verbatim>\<open>panel.seats\<close> under the identity of
  their \<^verbatim>\<open>struct seat\<close>. The field \<open>current_buffer\<close> says whether the pointer
  of that name is set. The last six fields are not fields of the C struct: they hold the
  rest of the program's state and its effects.
  \<^item> \<open>cairo\<close>: the calls made so far on the cairo context of the recording surface of
    the pass that runs;
  \<^item> \<open>committed\<close>: the frame that was last attached to the surface and committed;
  \<^item> \<open>requests\<close>: the requests sent so far;
  \<^item> \<open>time_reads\<close>, \<open>allocs\<close>, \<open>buffer_calls\<close>: how many local times,
    allocations and buffers the run has asked for so far.
\<close>

record panel =
  run_display :: bool
  seats :: "nat \<rightharpoonup> seat"
  toplevels :: "toplevel list"
  widgets :: "widget list"
  width :: "32 word"
  height :: "32 word"
  scale :: "32 word"
  current_buffer :: bool
  conf :: conf
  cairo :: "cairo_op list"
  committed :: "frame option"
  requests :: "request list"
  time_reads :: nat
  allocs :: nat
  buffer_calls :: nat

section \<open>Layout and drawing\<close>

definition cairo_add :: "cairo_op list \<Rightarrow> panel \<Rightarrow> panel" where
  "cairo_add ops p = p\<lparr>cairo := cairo p @ ops\<rparr>"

definition widgets_free :: "panel \<Rightarrow> panel" where
  "widgets_free p = p\<lparr>widgets := []\<rparr>"

text \<open>\<^verbatim>\<open>widget_add\<close>: when \<^verbatim>\<open>calloc\<close> fails nothing is added.\<close>

definition widget_add :: "world \<Rightarrow> int \<Rightarrow> int \<Rightarrow> nat option \<Rightarrow> panel \<Rightarrow> panel" where
  "widget_add w x wd tref p =
     (if alloc_ok w (allocs p)
      then p\<lparr>widgets := widgets p @ [\<lparr>widget_x = x, widget_width = wd, widget_toplevel = tref\<rparr>],
             allocs := Suc (allocs p)\<rparr>
      else p\<lparr>allocs := Suc (allocs p)\<rparr>)"

text \<open>
  The label of a toplevel, the expression
  \<^verbatim>\<open>toplevel->title ? toplevel->title : (toplevel->app_id ? toplevel->app_id : "?")\<close>
  of \<^verbatim>\<open>taskbar_natural_width\<close> and \<^verbatim>\<open>render_taskbar\<close>.
\<close>

definition label :: "toplevel \<Rightarrow> string" where
  "label t =
     (case title t of
        Some s \<Rightarrow> s
      | None \<Rightarrow> (case app_id t of Some a \<Rightarrow> a | None \<Rightarrow> ''?''))"

definition btn_width :: "world \<Rightarrow> toplevel \<Rightarrow> int" where
  "btn_width w t =
     (let text_width = fst (text_size w (label t));
          bw = text_width + 2 * BUTTON_PADDING
      in if bw > BUTTON_MAX_WIDTH then BUTTON_MAX_WIDTH else bw)"

text \<open>The loop of \<^verbatim>\<open>taskbar_natural_width\<close>, on the running \<^verbatim>\<open>total\<close> (\<open>acc\<close>).\<close>

fun taskbar_natural_loop :: "world \<Rightarrow> toplevel list \<Rightarrow> int \<Rightarrow> int" where
  "taskbar_natural_loop w [] acc = acc"
| "taskbar_natural_loop w (t # ts) acc =
     taskbar_natural_loop w ts (acc + (btn_width w t + BUTTON_PADDING))"

definition taskbar_natural_width :: "world \<Rightarrow> panel \<Rightarrow> int" where
  "taskbar_natural_width w p = taskbar_natural_loop w (toplevels p) BUTTON_PADDING"

text \<open>\<^verbatim>\<open>strftime(buf, 6, "%H:%M", tm)\<close>: two decimal digits each.\<close>

definition digit :: "nat \<Rightarrow> char" where
  "digit n = char_of (48 + n mod 10)"

definition strftime_HM :: "nat \<times> nat \<Rightarrow> string" where
  "strftime_HM tm =
     [digit (fst tm div 10), digit (fst tm), CHR '':'', digit (snd tm div 10), digit (snd tm)]"

definition clock_natural_width :: "world \<Rightarrow> panel \<Rightarrow> int \<times> panel" where
  "clock_natural_width w p =
     (let buf = strftime_HM (local_time w (time_reads p));
          text_width = fst (text_size w buf)
      in (text_width + 2 * BUTTON_PADDING, p\<lparr>time_reads := Suc (time_reads p)\<rparr>))"

text \<open>
  The loop of \<^verbatim>\<open>render_taskbar\<close> on the cursor \<^verbatim>\<open>x\<close>. The height of the button
  and the vertical position of the text are computed in \<^verbatim>\<open>uint32_t\<close>, as in C.
\<close>

fun render_taskbar_loop :: "world \<Rightarrow> toplevel list \<Rightarrow> int \<Rightarrow> panel \<Rightarrow> int \<times> panel" where
  "render_taskbar_loop w [] x p = (x, p)"
| "render_taskbar_loop w (t # ts) x p =
     (let text_height = snd (text_size w (label t));
          bw = btn_width w t;
          p1 = widget_add w x bw (Some (handle t)) p;
          p2 = cairo_add
            [Set_source_u32 (if active t then button_active (conf p1)
                             else button_background (conf p1)),
             Rectangle (of_int x) 2 (of_int bw) (of_int (uint (height p1 - 4))),
             Fill,
             Save,
             Rectangle (of_int (x + BUTTON_PADDING)) 0 (of_int (bw - 2 * BUTTON_PADDING))
               (of_int (uint (height p1))),
             Clip,
             Set_source_u32 (text_color (conf p1)),
             Move_to (of_int (x + BUTTON_PADDING))
               (of_int (uint ((height p1 - word_of_int text_height) div 2))),
             Render_text (label t),
             Restore] p1
      in render_taskbar_loop w ts (x + (bw + BUTTON_PADDING)) p2)"

definition render_taskbar :: "world \<Rightarrow> int \<Rightarrow> panel \<Rightarrow> int \<times> panel" where
  "render_taskbar w start_x p =
     (let (x, p') = render_taskbar_loop w (toplevels p) (start_x + BUTTON_PADDING) p
      in (x - start_x, p'))"

definition render_clock :: "world \<Rightarrow> int \<Rightarrow> panel \<Rightarrow> int \<times> panel" where
  "render_clock w start_x p =
     (let buf = strftime_HM (local_time w (time_reads p));
          p1 = p\<lparr>time_reads := Suc (time_reads p)\<rparr>;
          text_width = fst (text_size w buf);
          text_height = snd (text_size w buf);
          wd = text_width + 2 * BUTTON_PADDING;
          p2 = widget_add w start_x wd None p1;
          p3 = cairo_add
            [Set_source_u32 (text_color (conf p2)),
             Move_to (of_int (start_x + BUTTON_PADDING))
               (of_int (uint (height p2 - word_of_int text_height)) / 2),
             Render_text buf] p2
      in (wd, p3))"

text \<open>
  The first loop of \<^verbatim>\<open>render_to_cairo\<close>, which adds up \<^verbatim>\<open>fixed_width\<close>, and the
  value it leaves in \<^verbatim>\<open>spacer_width\<close>. The subtraction
  \<^verbatim>\<open>(int)panel->width - fixed_width\<close> is the one of the program as long as the
  difference is an \<^verbatim>\<open>int\<close>; for a cast width of \<open>- 2 ^ 31\<close> and a positive
  \<^verbatim>\<open>fixed_width\<close> it is not, and the model does not describe that run.
\<close>

fun fixed_width_loop :: "world \<Rightarrow> string \<Rightarrow> int \<Rightarrow> panel \<Rightarrow> int \<times> panel" where
  "fixed_width_loop w [] fixed_width p = (fixed_width, p)"
| "fixed_width_loop w (c # cs) fixed_width p =
     (if c = CHR ''T'' then
        fixed_width_loop w cs (fixed_width + taskbar_natural_width w p) p
      else if c = CHR ''C'' then
        (let (n, p') = clock_natural_width w p
         in fixed_width_loop w cs (fixed_width + n) p')
      else fixed_width_loop w cs fixed_width p)"

definition spacer_width :: "world \<Rightarrow> string \<Rightarrow> panel \<Rightarrow> int \<times> panel" where
  "spacer_width w items p =
     (if CHR ''S'' \<in> set items then
        (let (fixed_width, p') = fixed_width_loop w items 0 p;
             sw = sint (width p') - fixed_width
         in (if sw < 0 then 0 else sw, p'))
      else (0, p))"

text \<open>
  The second loop of \<^verbatim>\<open>render_to_cairo\<close>, on the cursor \<^verbatim>\<open>x\<close>. An unknown
  code is logged and skipped. The cursor is the one of the program as long as it stays
  below \<open>2 ^ 31\<close>.
\<close>

fun items_loop :: "world \<Rightarrow> int \<Rightarrow> string \<Rightarrow> int \<Rightarrow> panel \<Rightarrow> int \<times> panel" where
  "items_loop w sw [] x p = (x, p)"
| "items_loop w sw (c # cs) x p =
     (if c = CHR ''T'' then
        (let (n, p') = render_taskbar w x p in items_loop w sw cs (x + n) p')
      else if c = CHR ''C'' then
        (let (n, p') = render_clock w x p in items_loop w sw cs (x + n) p')
      else if c = CHR ''S'' then items_loop w sw cs (x + sw) p
      else items_loop w sw cs x p)"

definition render_items :: "world \<Rightarrow> panel \<Rightarrow> panel" where
  "render_items w p =
     (case panel_items (conf p) of
        None \<Rightarrow> p
      | Some items \<Rightarrow>
          (let (sw, p1) = spacer_width w items p
           in snd (items_loop w sw items 0 p1)))"

definition render_to_cairo :: "world \<Rightarrow> panel \<Rightarrow> panel" where
  "render_to_cairo w p =
     (let p1 = cairo_add
            [Set_operator OPERATOR_SOURCE, Set_source_u32 (background (conf p)), Paint] p;
          p2 = widgets_free p1;
          p3 = render_items w p2
      in cairo_add
           [Set_source_u32 (text_color (conf p3)),
            Rectangle 0 (of_int (uint (height p3))) (of_int (uint (width p3))) 1,
            Fill] p3)"


text \<open>
  \<^verbatim>\<open>render_frame\<close>. The recording surface and its context are new in every pass.
  \<^verbatim>\<open>get_next_buffer\<close> is asked for a buffer of \<^verbatim>\<open>width * scale\<close> by
  \<^verbatim>\<open>height * scale\<close>, computed in \<^verbatim>\<open>uint32_t\<close>; without a buffer nothing is
  committed.
\<close>

definition render_frame :: "world \<Rightarrow> panel \<Rightarrow> panel" where
  "render_frame w p =
     (if \<not> run_display p \<or> width p = 0 \<or> height p = 0 then p
      else
        (let p1 = p\<lparr>cairo := [Scale (sint (scale p)) (sint (scale p)),
                             Save, Set_operator OPERATOR_CLEAR, Paint, Restore]\<rparr>;
             p2 = render_to_cairo w p1;
             ok = buffer_ok w (buffer_calls p2);
             p3 = p2\<lparr>current_buffer := ok, buffer_calls := Suc (buffer_calls p2)\<rparr>
         in if \<not> ok then p3
            else p3\<lparr>committed := Some \<lparr>frame_width = width p3 * scale p3,
                                         frame_height = height p3 * scale p3,
                                         frame_scale = scale p3,
                                         frame_ops = cairo p3\<rparr>\<rparr>))"

section \<open>The handlers of the protocol events\<close>

text \<open>A handler of a toplevel handle works on the toplevel that holds the handle.\<close>

definition on_toplevel :: "nat \<Rightarrow> (toplevel \<Rightarrow> toplevel) \<Rightarrow> panel \<Rightarrow> panel" where
  "on_toplevel h f p =
     p\<lparr>toplevels := map (\<lambda>t. if handle t = h then f t else t) (toplevels p)\<rparr>"

text \<open>
  \<^verbatim>\<open>handle_toplevel_title\<close> and \<^verbatim>\<open>handle_toplevel_app_id\<close>: the old string is
  freed, and \<^verbatim>\<open>strdup\<close> leaves \<^verbatim>\<open>NULL\<close> when it fails.
\<close>

definition handle_toplevel_title :: "world \<Rightarrow> nat \<Rightarrow> string \<Rightarrow> panel \<Rightarrow> panel" where
  "handle_toplevel_title w h s p =
     (on_toplevel h (\<lambda>t. t\<lparr>title := (if alloc_ok w (allocs p) then Some s else None)\<rparr>) p)
       \<lparr>allocs := Suc (allocs p)\<rparr>"

definition handle_toplevel_app_id :: "world \<Rightarrow> nat \<Rightarrow> string \<Rightarrow> panel \<Rightarrow> panel" where
  "handle_toplevel_app_id w h s p =
     (on_toplevel h (\<lambda>t. t\<lparr>app_id := (if alloc_ok w (allocs p) then Some s else None)\<rparr>) p)
       \<lparr>allocs := Suc (allocs p)\<rparr>"

text \<open>
  \<^verbatim>\<open>handle_toplevel_state\<close>: the flag is cleared, then the loop over the entries of
  the \<^verbatim>\<open>wl_array\<close> sets it at every entry that is the activated state.
\<close>

fun state_loop :: "world \<Rightarrow> 32 word list \<Rightarrow> toplevel \<Rightarrow> toplevel" where
  "state_loop w [] t = t"
| "state_loop w (entry # es) t =
     state_loop w es (if entry = STATE_ACTIVATED w then t\<lparr>active := True\<rparr> else t)"

definition handle_toplevel_state :: "world \<Rightarrow> 32 word list \<Rightarrow> toplevel \<Rightarrow> toplevel" where
  "handle_toplevel_state w st t = state_loop w st (t\<lparr>active := False\<rparr>)"

definition handle_toplevel_done :: "world \<Rightarrow> panel \<Rightarrow> panel" where
  "handle_toplevel_done w p = render_frame w p"

definition toplevel_destroy :: "nat \<Rightarrow> panel \<Rightarrow> panel" where
  "toplevel_destroy h p = p\<lparr>toplevels := filter (\<lambda>t. handle t \<noteq> h) (toplevels p)\<rparr>"

definition handle_toplevel_closed :: "world \<Rightarrow> nat \<Rightarrow> panel \<Rightarrow> panel" where
  "handle_toplevel_closed w h p = render_frame w (toplevel_destroy h p)"

definition handle_toplevel_manager_toplevel :: "world \<Rightarrow> nat \<Rightarrow> panel \<Rightarrow> panel" where
  "handle_toplevel_manager_toplevel w h p =
     (if alloc_ok w (allocs p)
      then p\<lparr>toplevels := toplevels p @
                 [\<lparr>handle = h, title = None, app_id = None, active = False\<rparr>],
             allocs := Suc (allocs p)\<rparr>
      else p\<lparr>allocs := Suc (allocs p)\<rparr>)"

text \<open>
  \<^verbatim>\<open>panel_destroy\<close>, as far as the fields of the model go: the item string is freed
  and set to \<^verbatim>\<open>NULL\<close>, the seats and toplevels are destroyed, the widgets freed.
\<close>

definition panel_destroy :: "panel \<Rightarrow> panel" where
  "panel_destroy p =
     widgets_free
       (p\<lparr>run_display := False,
          conf := (conf p)\<lparr>panel_items := None\<rparr>,
          seats := Map.empty,
          toplevels := []\<rparr>)"

definition layer_surface_configure :: "world \<Rightarrow> 32 word \<Rightarrow> 32 word \<Rightarrow> panel \<Rightarrow> panel" where
  "layer_surface_configure w wv hv p = render_frame w (p\<lparr>width := wv, height := hv\<rparr>)"

definition layer_surface_closed :: "panel \<Rightarrow> panel" where
  "layer_surface_closed p = panel_destroy p"

text \<open>
  \<^verbatim>\<open>output_scale\<close> for the output of the panel, and \<^verbatim>\<open>surface_enter\<close> on an
  output of the list with that scale: the scale is stored and a frame rendered. The cursor
  themes are not modelled.
\<close>

definition output_scale :: "world \<Rightarrow> 32 word \<Rightarrow> panel \<Rightarrow> panel" where
  "output_scale w factor p = render_frame w (p\<lparr>scale := factor\<rparr>)"

text \<open>
  \<^verbatim>\<open>wl_pointer_enter\<close> and \<^verbatim>\<open>wl_pointer_motion\<close> store the coordinates, which
  arrive here as the integers that \<^verbatim>\<open>wl_fixed_to_int\<close> returns.
\<close>

definition wl_pointer_motion :: "int \<Rightarrow> int \<Rightarrow> seat \<Rightarrow> seat" where
  "wl_pointer_motion sx sy s = s\<lparr>pointer_x := sx, pointer_y := sy\<rparr>"

text \<open>
  \<^verbatim>\<open>wl_pointer_button\<close>: the requests that the handler sends. The loop over
  \<^verbatim>\<open>panel->widgets\<close> leaves at the first widget that holds the coordinate.
\<close>

fun button_loop :: "nat \<Rightarrow> int \<Rightarrow> widget list \<Rightarrow> request list" where
  "button_loop st x [] = []"
| "button_loop st x (wg # ws) =
     (if x \<ge> widget_x wg \<and> x < widget_x wg + widget_width wg then
        (case widget_toplevel wg of
           Some h \<Rightarrow> [Activate h st]
         | None \<Rightarrow> [])
      else button_loop st x ws)"

definition wl_pointer_button :: "world \<Rightarrow> seat \<Rightarrow> 32 word \<Rightarrow> panel \<Rightarrow> request list" where
  "wl_pointer_button w s state p =
     (if state \<noteq> BUTTON_STATE_PRESSED w then []
      else button_loop (wl_seat s) (pointer_x s) (widgets p))"

text \<open>
  The events that reach the panel. \<open>Panel_run\<close> is the assignment at the head of
  \<^verbatim>\<open>panel_run\<close>, \<open>Render\<close> a call of \<^verbatim>\<open>render_frame\<close> from
  \<^verbatim>\<open>panel_run\<close> (the first frame, and each tick of the clock timer). An event of a
  pointer names its seat; a seat that does not exist receives none.
\<close>

datatype event =
    Panel_run
  | Render
  | Manager_toplevel nat
  | Toplevel_title nat string
  | Toplevel_app_id nat string
  | Toplevel_state nat "32 word list"
  | Toplevel_done nat
  | Toplevel_closed nat
  | Layer_surface_configure "32 word" "32 word"
  | Layer_surface_closed
  | Output_scale "32 word"
  | Pointer_enter nat int int
  | Pointer_motion nat int int
  | Pointer_button nat "32 word"

fun step :: "world \<Rightarrow> event \<Rightarrow> panel \<Rightarrow> panel" where
  "step w Panel_run p = p\<lparr>run_display := True\<rparr>"
| "step w Render p = render_frame w p"
| "step w (Manager_toplevel h) p = handle_toplevel_manager_toplevel w h p"
| "step w (Toplevel_title h s) p = handle_toplevel_title w h s p"
| "step w (Toplevel_app_id h s) p = handle_toplevel_app_id w h s p"
| "step w (Toplevel_state h st) p = on_toplevel h (handle_toplevel_state w st) p"
| "step w (Toplevel_done h) p = handle_toplevel_done w p"
| "step w (Toplevel_closed h) p = handle_toplevel_closed w h p"
| "step w (Layer_surface_configure wv hv) p = layer_surface_configure w wv hv p"
| "step w Layer_surface_closed p = layer_surface_closed p"
| "step w (Output_scale factor) p = output_scale w factor p"
| "step w (Pointer_enter i sx sy) p =
     (case seats p i of
        None \<Rightarrow> p
      | Some s \<Rightarrow> p\<lparr>seats := (seats p)(i \<mapsto> wl_pointer_motion sx sy s)\<rparr>)"
| "step w (Pointer_motion i sx sy) p =
     (case seats p i of
        None \<Rightarrow> p
      | Some s \<Rightarrow> p\<lparr>seats := (seats p)(i \<mapsto> wl_pointer_motion sx sy s)\<rparr>)"
| "step w (Pointer_button i state) p =
     (case seats p i of
        None \<Rightarrow> p
      | Some s \<Rightarrow> p\<lparr>requests := requests p @ wl_pointer_button w s state p\<rparr>)"

fun run :: "world \<Rightarrow> event list \<Rightarrow> panel \<Rightarrow> panel" where
  "run w [] p = p"
| "run w (e # es) p = run w es (step w e p)"

text \<open>
  The panel of \<^verbatim>\<open>main\<close> once \<^verbatim>\<open>panel_setup\<close> has set the scale to 1
  and before any event of the list above is handled: the other fields zero, the lists
  empty, the configuration given. The seats are those that the registry announces during
  the setup. Only \<^verbatim>\<open>layer_surface_configure\<close> assigns the width and the height.
\<close>

definition panel_init :: "conf \<Rightarrow> (nat \<rightharpoonup> seat) \<Rightarrow> panel" where
  "panel_init c ss =
     \<lparr>run_display = False, seats = ss, toplevels = [], widgets = [],
      width = 0, height = 0, scale = 1, current_buffer = False, conf = c,
      cairo = [], committed = None, requests = [],
      time_reads = 0, allocs = 0, buffer_calls = 0\<rparr>"

section \<open>The clock timer of the setup\<close>

text \<open>
  The block of \<^verbatim>\<open>panel_setup\<close> that fills \<^verbatim>\<open>pollfds[FD_CLOCK]\<close>: the
  descriptor stored, and the \<^verbatim>\<open>struct itimerspec\<close> given to
  \<^verbatim>\<open>timerfd_settime\<close> with \<^verbatim>\<open>TFD_TIMER_ABSTIME\<close> when that call is made. The
  arguments are the result of \<^verbatim>\<open>timerfd_create\<close> and the seconds of
  \<^verbatim>\<open>clock_gettime(CLOCK_REALTIME)\<close>. The nanoseconds of both times of the
  \<^verbatim>\<open>itimerspec\<close> are zero. The remainder of C truncates towards zero.
\<close>

record itimerspec =
  it_interval_sec :: int
  it_value_sec :: int

definition panel_setup_clock :: "conf \<Rightarrow> int \<Rightarrow> int \<Rightarrow> int \<times> itimerspec option" where
  "panel_setup_clock c fd now_sec =
     (case panel_items c of
        None \<Rightarrow> (- 1, None)
      | Some items \<Rightarrow>
          if CHR ''C'' \<in> set items then
            (fd, Some \<lparr>it_interval_sec = 60,
                       it_value_sec = now_sec - (now_sec smod 60) + 60\<rparr>)
          else (- 1, None))"

section \<open>Reading the recorded calls and the widget list\<close>

text \<open>The texts that a recording draws, in order.\<close>

fun rendered_texts :: "cairo_op list \<Rightarrow> string list" where
  "rendered_texts [] = []"
| "rendered_texts (Render_text s # ops) = s # rendered_texts ops"
| "rendered_texts (_ # ops) = rendered_texts ops"

text \<open>
  The natural width of the item at position \<open>i\<close> of the item string, as the first loop of
  \<^verbatim>\<open>render_to_cairo\<close> measures it when it starts from the panel \<open>p\<close>: the taskbar
  for \<open>T\<close>; for \<open>C\<close> the clock text of the local time read at that moment, which is
  the read after those of the \<open>C\<close> items before position \<open>i\<close>; nothing for any other
  code.
\<close>

definition natural_width :: "world \<Rightarrow> panel \<Rightarrow> string \<Rightarrow> nat \<Rightarrow> int" where
  "natural_width w p items i =
     (if items ! i = CHR ''T'' then taskbar_natural_width w p
      else if items ! i = CHR ''C'' then
        fst (clock_natural_width w
               (p\<lparr>time_reads := time_reads p + count_list (take i items) (CHR ''C'')\<rparr>))
      else 0)"

text \<open>
  The widgets that the loop of \<^verbatim>\<open>render_taskbar\<close> adds from the cursor \<open>x\<close> on when
  every allocation succeeds.
\<close>

fun buttons :: "world \<Rightarrow> toplevel list \<Rightarrow> int \<Rightarrow> widget list" where
  "buttons w [] x = []"
| "buttons w (t # ts) x =
     \<lparr>widget_x = x, widget_width = btn_width w t, widget_toplevel = Some (handle t)\<rparr>
       # buttons w ts (x + (btn_width w t + BUTTON_PADDING))"

text \<open>
  The invariant of the layout loops: the cursor \<open>x\<close> is not negative, and the widgets
  lie one after the other, start at 0 or later, have no negative width, and end at or
  before the cursor.
\<close>

definition wfits :: "int \<Rightarrow> widget list \<Rightarrow> bool" where
  "wfits x ws \<longleftrightarrow>
     0 \<le> x \<and>
     sorted_wrt (\<lambda>a b. widget_x a + widget_width a \<le> widget_x b) ws \<and>
     list_all (\<lambda>a. 0 \<le> widget_x a \<and> 0 \<le> widget_width a \<and>
                   widget_x a + widget_width a \<le> x) ws"

text \<open>
  An event that is not a configure event with a width and a height other than zero, and
  the panels that have had no other event: nothing laid out, nothing sent, nothing shown.
\<close>

fun no_size :: "event \<Rightarrow> bool" where
  "no_size (Layer_surface_configure wv hv) = (wv = 0 \<or> hv = 0)"
| "no_size _ = True"

definition quiet :: "panel \<Rightarrow> bool" where
  "quiet p \<longleftrightarrow>
     widgets p = [] \<and> requests p = [] \<and> committed p = None \<and> (width p = 0 \<or> height p = 0)"

section \<open>A concrete panel\<close>

text \<open>
  A world in which every character is 7 pixels wide and a line 15 pixels high, the local
  time is 09:05, and allocations and buffers are there; the colours of
  \<^verbatim>\<open>conf_init\<close> and the default item string; a panel of 800 by 30 with one toplevel
  titled \<open>Editor\<close>, and the same panel with a second toplevel that has no title.
\<close>

definition example_world :: world where
  "example_world =
     \<lparr>text_size = (\<lambda>s. (7 * int (length s), 15)),
      local_time = (\<lambda>k. (9, 5)),
      alloc_ok = (\<lambda>k. True),
      buffer_ok = (\<lambda>k. True),
      STATE_ACTIVATED = 2,
      BUTTON_STATE_PRESSED = 1\<rparr>"

definition example_conf :: conf where
  "example_conf =
     \<lparr>background = 0x323232FF, text_color = 0xFFFFFFFF, button_background = 0x4A4A4AFF,
      button_active = 0x5A8AC6FF, panel_items = Some ''TSC''\<rparr>"

definition example_seats :: "nat \<rightharpoonup> seat" where
  "example_seats = [0 \<mapsto> \<lparr>wl_seat = 7, pointer_x = 0, pointer_y = 0\<rparr>]"

definition example_editor :: toplevel where
  "example_editor = \<lparr>handle = 1, title = Some ''Editor'', app_id = None, active = False\<rparr>"

definition example_panel :: panel where
  "example_panel =
     (panel_init example_conf example_seats)
       \<lparr>run_display := True, toplevels := [example_editor], width := 800, height := 30\<rparr>"

definition example_two :: panel where
  "example_two =
     example_panel
       \<lparr>toplevels := [example_editor,
                      \<lparr>handle = 2, title = None, app_id = Some ''term'', active = True\<rparr>]\<rparr>"

section \<open>Properties\<close>

subsection \<open>Fields that the operations leave alone\<close>

lemma widget_add_fields [simp]:
  "toplevels (widget_add w x wd r p) = toplevels p"
  "cairo (widget_add w x wd r p) = cairo p"
  "conf (widget_add w x wd r p) = conf p"
  "height (widget_add w x wd r p) = height p"
  "width (widget_add w x wd r p) = width p"
  "time_reads (widget_add w x wd r p) = time_reads p"
  "allocs (widget_add w x wd r p) = Suc (allocs p)"
  by (simp_all add: widget_add_def)

lemma cairo_add_fields [simp]:
  "toplevels (cairo_add ops p) = toplevels p"
  "widgets (cairo_add ops p) = widgets p"
  "conf (cairo_add ops p) = conf p"
  "height (cairo_add ops p) = height p"
  "width (cairo_add ops p) = width p"
  "time_reads (cairo_add ops p) = time_reads p"
  "allocs (cairo_add ops p) = allocs p"
  "cairo (cairo_add ops p) = cairo p @ ops"
  by (simp_all add: cairo_add_def)

lemma snd_render_taskbar:
  "snd (render_taskbar w sx p) =
     snd (render_taskbar_loop w (toplevels p) (sx + BUTTON_PADDING) p)"
  by (simp add: render_taskbar_def split: prod.splits)

lemma fst_render_taskbar:
  "fst (render_taskbar w sx p) =
     fst (render_taskbar_loop w (toplevels p) (sx + BUTTON_PADDING) p) - sx"
  by (simp add: render_taskbar_def split: prod.splits)

subsection \<open>The label of a button\<close>

lemma rendered_texts_append:
  "rendered_texts (a @ b) = rendered_texts a @ rendered_texts b"
  by (induction a rule: rendered_texts.induct) simp_all

lemma rendered_texts_taskbar_loop:
  "rendered_texts (cairo (snd (render_taskbar_loop w ts x p))) =
     rendered_texts (cairo p) @ map label ts"
  by (induction ts arbitrary: x p) (simp_all add: Let_def rendered_texts_append)

text \<open>
  Claim C6. The label of a toplevel is its title when it has one, otherwise its
  application identifier when it has one, otherwise the string \<open>?\<close>. The taskbar pass
  draws these labels, one for each toplevel in the order of the list, and the width of a
  button is measured on the same label.
\<close>

theorem label_fallback:
  "label t = (if title t \<noteq> None then the (title t)
              else if app_id t \<noteq> None then the (app_id t) else ''?'')
   \<and> rendered_texts (cairo (snd (render_taskbar w sx p))) =
       rendered_texts (cairo p) @ map label (toplevels p)
   \<and> btn_width w t = min (fst (text_size w (label t)) + 2 * BUTTON_PADDING) BUTTON_MAX_WIDTH"
proof -
  have "label t = (if title t \<noteq> None then the (title t)
              else if app_id t \<noteq> None then the (app_id t) else ''?'')"
    by (simp add: label_def split: option.splits)
  moreover have "rendered_texts (cairo (snd (render_taskbar w sx p))) =
       rendered_texts (cairo p) @ map label (toplevels p)"
    by (simp add: snd_render_taskbar rendered_texts_taskbar_loop)
  moreover have "btn_width w t =
       min (fst (text_size w (label t)) + 2 * BUTTON_PADDING) BUTTON_MAX_WIDTH"
    by (simp add: btn_width_def Let_def min_def)
  ultimately show ?thesis by blast
qed

subsection \<open>The active flag\<close>

lemma state_loop_eq:
  "state_loop w st t = t\<lparr>active := (active t \<or> STATE_ACTIVATED w \<in> set st)\<rparr>"
  by (induction st arbitrary: t) auto

text \<open>
  Claim C7. The handler of a state event sets the active flag of the toplevel to whether
  the activated state is among the delivered entries, whatever the flag was before, and
  changes nothing else; the toplevels that do not hold the handle keep their flag.
\<close>

theorem handle_toplevel_state_recomputes:
  "handle_toplevel_state w st t = t\<lparr>active := (STATE_ACTIVATED w \<in> set st)\<rparr>
   \<and> active (handle_toplevel_state w st t) = (STATE_ACTIVATED w \<in> set st)
   \<and> toplevels (step w (Toplevel_state h st) p) =
       map (\<lambda>t. if handle t = h then t\<lparr>active := (STATE_ACTIVATED w \<in> set st)\<rparr> else t)
         (toplevels p)"
  by (simp add: handle_toplevel_state_def state_loop_eq on_toplevel_def)

subsection \<open>Pointer buttons\<close>

lemma button_loop_find:
  "button_loop st x ws =
     (case find (\<lambda>wg. widget_x wg \<le> x \<and> x < widget_x wg + widget_width wg) ws of
        None \<Rightarrow> []
      | Some wg \<Rightarrow> (case widget_toplevel wg of None \<Rightarrow> [] | Some h \<Rightarrow> [Activate h st]))"
  by (induction ws) simp_all

text \<open>
  Claim C2. A button event whose state is not the pressed state sends nothing. A press
  looks for the first widget of the list, in the order of the list, whose interval from
  its \<open>x\<close> up to, not including, \<open>x + width\<close> holds the stored coordinate of the
  pointer; it sends one activate request for the toplevel of that widget when the widget
  has one, and nothing when it has none or when no widget holds the coordinate.
\<close>

theorem wl_pointer_button_dispatch:
  "wl_pointer_button w s state p =
     (if state = BUTTON_STATE_PRESSED w then
        (case find (\<lambda>wg. widget_x wg \<le> pointer_x s \<and> pointer_x s < widget_x wg + widget_width wg)
                (widgets p) of
           None \<Rightarrow> []
         | Some wg \<Rightarrow>
             (case widget_toplevel wg of None \<Rightarrow> [] | Some h \<Rightarrow> [Activate h (wl_seat s)]))
      else [])"
  by (simp add: wl_pointer_button_def button_loop_find)

subsection \<open>The clock timer\<close>

lemma smod_60_nonneg: "0 \<le> (n::int) \<Longrightarrow> n smod 60 = n mod 60"
  by (cases "n = 0") (simp_all add: signed_modulo_int_def)

text \<open>
  Claim C8. For a time of the realtime clock that is not before the epoch, the setup
  gives a timer specification to \<^verbatim>\<open>timerfd_settime\<close> exactly when the item string
  is there and contains \<open>C\<close>. The first expiry is then the absolute time of the next full
  minute: the seconds rounded down to a multiple of 60, plus 60, which is later than now
  and at most 60 seconds later; the interval is 60 seconds. Otherwise the descriptor of
  the clock is \<open>-1\<close> and no timer is set.
\<close>

theorem clock_timer_armed:
  assumes "0 \<le> now_sec"
  shows "panel_setup_clock c fd now_sec =
           (if \<exists>items. panel_items c = Some items \<and> CHR ''C'' \<in> set items
            then (fd, Some \<lparr>it_interval_sec = 60, it_value_sec = 60 * (now_sec div 60) + 60\<rparr>)
            else (- 1, None))
         \<and> now_sec < 60 * (now_sec div 60) + 60
         \<and> 60 * (now_sec div 60) + 60 \<le> now_sec + 60"
proof -
  have "now_sec - now_sec smod 60 = 60 * (now_sec div 60)"
    using assms by (simp add: smod_60_nonneg minus_mod_eq_mult_div)
  then have "panel_setup_clock c fd now_sec =
           (if \<exists>items. panel_items c = Some items \<and> CHR ''C'' \<in> set items
            then (fd, Some \<lparr>it_interval_sec = 60, it_value_sec = 60 * (now_sec div 60) + 60\<rparr>)
            else (- 1, None))"
    by (simp add: panel_setup_clock_def split: option.splits)
  moreover have "now_sec < 60 * (now_sec div 60) + 60"
    and "60 * (now_sec div 60) + 60 \<le> now_sec + 60"
    by presburger+
  ultimately show ?thesis by blast
qed

theorem clock_timer_armed_witness:
  "(0::int) \<le> 125
   \<and> panel_setup_clock \<lparr>background = 0, text_color = 0, button_background = 0,
        button_active = 0, panel_items = Some ''TSC''\<rparr> 5 125 =
       (5, Some \<lparr>it_interval_sec = 60, it_value_sec = 180\<rparr>)"
  using clock_timer_armed [of 125 "\<lparr>background = 0, text_color = 0, button_background = 0,
        button_active = 0, panel_items = Some ''TSC''\<rparr>" 5]
  by simp

subsection \<open>More fields that the operations leave alone\<close>

lemma clock_natural_width_fields [simp]:
  "toplevels (snd (clock_natural_width w p)) = toplevels p"
  "widgets (snd (clock_natural_width w p)) = widgets p"
  "conf (snd (clock_natural_width w p)) = conf p"
  "width (snd (clock_natural_width w p)) = width p"
  "height (snd (clock_natural_width w p)) = height p"
  "allocs (snd (clock_natural_width w p)) = allocs p"
  "cairo (snd (clock_natural_width w p)) = cairo p"
  "time_reads (snd (clock_natural_width w p)) = Suc (time_reads p)"
  by (simp_all add: clock_natural_width_def Let_def)

lemma fixed_width_loop_fields [simp]:
  "toplevels (snd (fixed_width_loop w cs acc p)) = toplevels p"
  "widgets (snd (fixed_width_loop w cs acc p)) = widgets p"
  "conf (snd (fixed_width_loop w cs acc p)) = conf p"
  "width (snd (fixed_width_loop w cs acc p)) = width p"
  "height (snd (fixed_width_loop w cs acc p)) = height p"
  "allocs (snd (fixed_width_loop w cs acc p)) = allocs p"
  "cairo (snd (fixed_width_loop w cs acc p)) = cairo p"
  by (induction cs arbitrary: acc p; simp add: case_prod_beta)+

lemma spacer_width_fields [simp]:
  "toplevels (snd (spacer_width w items p)) = toplevels p"
  "widgets (snd (spacer_width w items p)) = widgets p"
  "conf (snd (spacer_width w items p)) = conf p"
  "width (snd (spacer_width w items p)) = width p"
  "height (snd (spacer_width w items p)) = height p"
  "allocs (snd (spacer_width w items p)) = allocs p"
  "cairo (snd (spacer_width w items p)) = cairo p"
  by (simp_all add: spacer_width_def Let_def case_prod_beta)

lemma render_taskbar_loop_fields [simp]:
  "toplevels (snd (render_taskbar_loop w ts x p)) = toplevels p"
  "conf (snd (render_taskbar_loop w ts x p)) = conf p"
  "width (snd (render_taskbar_loop w ts x p)) = width p"
  "height (snd (render_taskbar_loop w ts x p)) = height p"
  "time_reads (snd (render_taskbar_loop w ts x p)) = time_reads p"
  "allocs (snd (render_taskbar_loop w ts x p)) = allocs p + length ts"
  by (induction ts arbitrary: x p; simp add: Let_def)+

lemma render_taskbar_fields [simp]:
  "toplevels (snd (render_taskbar w sx p)) = toplevels p"
  "conf (snd (render_taskbar w sx p)) = conf p"
  "width (snd (render_taskbar w sx p)) = width p"
  "height (snd (render_taskbar w sx p)) = height p"
  "time_reads (snd (render_taskbar w sx p)) = time_reads p"
  "allocs (snd (render_taskbar w sx p)) = allocs p + length (toplevels p)"
  by (simp_all add: snd_render_taskbar)

lemma render_clock_fields [simp]:
  "toplevels (snd (render_clock w sx p)) = toplevels p"
  "conf (snd (render_clock w sx p)) = conf p"
  "width (snd (render_clock w sx p)) = width p"
  "height (snd (render_clock w sx p)) = height p"
  "time_reads (snd (render_clock w sx p)) = Suc (time_reads p)"
  "allocs (snd (render_clock w sx p)) = Suc (allocs p)"
  by (simp_all add: render_clock_def Let_def)

lemma items_loop_fields [simp]:
  "toplevels (snd (items_loop w sw cs x p)) = toplevels p"
  "conf (snd (items_loop w sw cs x p)) = conf p"
  "width (snd (items_loop w sw cs x p)) = width p"
  "height (snd (items_loop w sw cs x p)) = height p"
  by (induction cs arbitrary: x p; simp add: case_prod_beta)+

lemma render_items_fields [simp]:
  "toplevels (render_items w p) = toplevels p"
  "conf (render_items w p) = conf p"
  "width (render_items w p) = width p"
  "height (render_items w p) = height p"
  by (simp_all add: render_items_def case_prod_beta split: option.splits)

lemmas example_defs = example_world_def example_conf_def example_panel_def example_seats_def
  example_editor_def example_two_def panel_init_def

lemmas pass_defs = render_to_cairo_def render_items_def spacer_width_def cairo_add_def
  widgets_free_def render_taskbar_def render_clock_def widget_add_def btn_width_def label_def
  taskbar_natural_width_def clock_natural_width_def strftime_HM_def digit_def
  BUTTON_PADDING_def BUTTON_MAX_WIDTH_def

subsection \<open>The width of the spacer\<close>

lemma fst_clock_natural_width:
  "fst (clock_natural_width w p) =
     fst (text_size w (strftime_HM (local_time w (time_reads p)))) + 2 * BUTTON_PADDING"
  by (simp add: clock_natural_width_def Let_def)

lemma natural_width_Cons:
  "natural_width w p (c # cs) (Suc i) =
     natural_width w (if c = CHR ''C'' then snd (clock_natural_width w p) else p) cs i"
  by (simp add: natural_width_def fst_clock_natural_width taskbar_natural_width_def)

lemma natural_width_0:
  "natural_width w p (c # cs) 0 =
     (if c = CHR ''T'' then taskbar_natural_width w p
      else if c = CHR ''C'' then fst (clock_natural_width w p) else 0)"
  by (simp add: natural_width_def fst_clock_natural_width)

lemma fixed_width_loop_sum:
  "fst (fixed_width_loop w cs acc p) = acc + (\<Sum>i<length cs. natural_width w p cs i)"
proof (induction cs arbitrary: acc p)
  case Nil
  then show ?case by simp
next
  case (Cons c cs)
  show ?case
    by (simp add: Cons.IH sum.lessThan_Suc_shift natural_width_0 natural_width_Cons
        case_prod_beta del: sum.lessThan_Suc)
qed

lemma fst_spacer_width:
  "fst (spacer_width w items p) =
     (if CHR ''S'' \<in> set items
      then max 0 (sint (width p) - (\<Sum>i<length items. natural_width w p items i))
      else 0)"
proof -
  have "width (snd (fixed_width_loop w items 0 p)) = width p" by simp
  then show ?thesis
    using fixed_width_loop_sum [of w items 0 p]
    by (simp add: spacer_width_def Let_def max_def case_prod_beta)
qed

lemma spacer_width_nonneg: "0 \<le> fst (spacer_width w items p)"
  by (simp add: spacer_width_def Let_def case_prod_beta)

lemma items_loop_append:
  "items_loop w sw (a @ b) x p =
     items_loop w sw b (fst (items_loop w sw a x p)) (snd (items_loop w sw a x p))"
  by (induction a arbitrary: x p) (simp_all add: case_prod_beta)

lemma sint_width: "uint (v :: 32 word) < 2 ^ 31 \<Longrightarrow> sint v = uint v"
proof -
  assume b: "uint v < 2 ^ 31"
  have "- (2 ^ 31) \<le> uint v" by (rule order_trans [of _ 0]) simp_all
  then have "signed_take_bit 31 (uint v) = uint v"
    using b by (rule signed_take_bit_int_eq_self)
  then show ?thesis by (simp add: sint_uint)
qed

subsection \<open>The buttons of the taskbar\<close>

lemma widgets_taskbar_loop:
  "\<forall>k<length ts. alloc_ok w (allocs p + k) \<Longrightarrow>
     widgets (snd (render_taskbar_loop w ts x p)) = widgets p @ buttons w ts x"
proof (induction ts arbitrary: x p)
  case Nil
  then show ?case by simp
next
  case (Cons t ts)
  from Cons.prems have a0: "alloc_ok w (allocs p)" by auto
  have rest: "\<forall>k<length ts. alloc_ok w (Suc (allocs p) + k)"
    using Cons.prems by auto
  show ?case
    using a0 rest by (simp add: Let_def Cons.IH) (simp add: widget_add_def)
qed

lemma taskbar_natural_loop_acc:
  "taskbar_natural_loop w ts acc = acc + taskbar_natural_loop w ts 0"
proof (induction ts arbitrary: acc)
  case Nil
  then show ?case by simp
next
  case (Cons t ts)
  show ?case
    using Cons.IH [of "acc + (btn_width w t + BUTTON_PADDING)"]
      Cons.IH [of "btn_width w t + BUTTON_PADDING"]
    by simp
qed

lemma fst_render_taskbar_loop:
  "fst (render_taskbar_loop w ts x p) = taskbar_natural_loop w ts x"
  by (induction ts arbitrary: x p) (simp_all add: Let_def)

text \<open>The taskbar advances the cursor by the natural width that the first loop adds up.\<close>

lemma render_taskbar_advance:
  "fst (render_taskbar w sx p) = taskbar_natural_width w p"
  using taskbar_natural_loop_acc [of w "toplevels p" "sx + BUTTON_PADDING"]
    taskbar_natural_loop_acc [of w "toplevels p" BUTTON_PADDING]
  by (simp add: fst_render_taskbar fst_render_taskbar_loop taskbar_natural_width_def)

lemma length_buttons [simp]: "length (buttons w ts x) = length ts"
  by (induction ts arbitrary: x) simp_all

lemma buttons_nth:
  "i < length ts \<Longrightarrow>
     widget_width (buttons w ts x ! i) = btn_width w (ts ! i) \<and>
     widget_toplevel (buttons w ts x ! i) = Some (handle (ts ! i))"
  by (induction ts arbitrary: x i) (auto simp: nth_Cons split: nat.splits)

lemma buttons_first: "ts \<noteq> [] \<Longrightarrow> widget_x (buttons w ts x ! 0) = x"
  by (cases ts) simp_all

lemma buttons_gap:
  "Suc i < length ts \<Longrightarrow>
     widget_x (buttons w ts x ! Suc i) =
       widget_x (buttons w ts x ! i) + widget_width (buttons w ts x ! i) + BUTTON_PADDING"
proof (induction ts arbitrary: x i)
  case Nil
  then show ?case by simp
next
  case (Cons t ts)
  show ?case
  proof (cases i)
    case 0
    with Cons.prems have "ts \<noteq> []" by auto
    then show ?thesis using 0 by (simp add: buttons_first)
  next
    case (Suc j)
    with Cons.prems have "Suc j < length ts" by simp
    from Cons.IH [OF this] show ?thesis using Suc by simp
  qed
qed

lemma btn_width_min:
  "btn_width w t = min (fst (text_size w (label t)) + 2 * BUTTON_PADDING) BUTTON_MAX_WIDTH"
  by (simp add: btn_width_def Let_def min_def)

text \<open>
  Claim C5. When the allocations of the widgets succeed, the taskbar pass appends one
  widget for each toplevel, in the order of the list of toplevels. The widget of a
  toplevel refers to that toplevel, and its width is the measured width of the label plus
  two paddings, or the maximal button width (200) when that is smaller. The first button
  starts one padding after the start of the taskbar, and each further button starts one
  padding after the end of the button before it.
\<close>

theorem taskbar_buttons:
  assumes "\<forall>k<length (toplevels p). alloc_ok w (allocs p + k)"
  shows "\<exists>ws. widgets (snd (render_taskbar w sx p)) = widgets p @ ws
           \<and> length ws = length (toplevels p)
           \<and> (\<forall>i<length ws.
                 widget_toplevel (ws ! i) = Some (handle (toplevels p ! i)) \<and>
                 widget_width (ws ! i) =
                   min (fst (text_size w (label (toplevels p ! i))) + 2 * BUTTON_PADDING)
                     BUTTON_MAX_WIDTH)
           \<and> (ws \<noteq> [] \<longrightarrow> widget_x (ws ! 0) = sx + BUTTON_PADDING)
           \<and> (\<forall>i. Suc i < length ws \<longrightarrow>
                 widget_x (ws ! Suc i) =
                   widget_x (ws ! i) + widget_width (ws ! i) + BUTTON_PADDING)
           \<and> BUTTON_PADDING = 8 \<and> BUTTON_MAX_WIDTH = 200"
proof (intro exI conjI)
  show "widgets (snd (render_taskbar w sx p)) =
          widgets p @ buttons w (toplevels p) (sx + BUTTON_PADDING)"
    using assms by (simp add: snd_render_taskbar widgets_taskbar_loop)
  show "length (buttons w (toplevels p) (sx + BUTTON_PADDING)) = length (toplevels p)"
    by simp
  show "\<forall>i<length (buttons w (toplevels p) (sx + BUTTON_PADDING)).
          widget_toplevel (buttons w (toplevels p) (sx + BUTTON_PADDING) ! i) =
            Some (handle (toplevels p ! i)) \<and>
          widget_width (buttons w (toplevels p) (sx + BUTTON_PADDING) ! i) =
            min (fst (text_size w (label (toplevels p ! i))) + 2 * BUTTON_PADDING)
              BUTTON_MAX_WIDTH"
    by (simp add: buttons_nth btn_width_min)
  show "buttons w (toplevels p) (sx + BUTTON_PADDING) \<noteq> [] \<longrightarrow>
          widget_x (buttons w (toplevels p) (sx + BUTTON_PADDING) ! 0) = sx + BUTTON_PADDING"
    using buttons_first [of "toplevels p" w "sx + BUTTON_PADDING"]
    by (cases "toplevels p") simp_all
  show "\<forall>i. Suc i < length (buttons w (toplevels p) (sx + BUTTON_PADDING)) \<longrightarrow>
          widget_x (buttons w (toplevels p) (sx + BUTTON_PADDING) ! Suc i) =
            widget_x (buttons w (toplevels p) (sx + BUTTON_PADDING) ! i) +
            widget_width (buttons w (toplevels p) (sx + BUTTON_PADDING) ! i) + BUTTON_PADDING"
    by (simp add: buttons_gap)
  show "BUTTON_PADDING = 8" by (simp add: BUTTON_PADDING_def)
  show "BUTTON_MAX_WIDTH = 200" by (simp add: BUTTON_MAX_WIDTH_def)
qed

theorem taskbar_buttons_witness:
  "alloc_ok example_world 0 \<and> alloc_ok example_world 1
   \<and> map widget_toplevel (widgets (snd (render_taskbar example_world 0 example_two))) =
       [Some 1, Some 2]
   \<and> map widget_width (widgets (snd (render_taskbar example_world 0 example_two))) = [58, 44]
   \<and> map widget_x (widgets (snd (render_taskbar example_world 0 example_two))) = [8, 74]"
proof -
  have a: "alloc_ok example_world 0 \<and> alloc_ok example_world 1"
    by (simp add: example_world_def)
  have h: "\<forall>k<length (toplevels example_two). alloc_ok example_world (allocs example_two + k)"
    by (simp add: example_world_def)
  from taskbar_buttons [OF h, of 0] obtain ws
    where eq: "widgets (snd (render_taskbar example_world 0 example_two)) =
                 widgets example_two @ ws"
      and len: "length ws = length (toplevels example_two)"
      and each: "\<forall>i<length ws.
                 widget_toplevel (ws ! i) = Some (handle (toplevels example_two ! i)) \<and>
                 widget_width (ws ! i) =
                   min (fst (text_size example_world (label (toplevels example_two ! i)))
                        + 2 * BUTTON_PADDING) BUTTON_MAX_WIDTH"
      and first: "ws \<noteq> [] \<longrightarrow> widget_x (ws ! 0) = 0 + BUTTON_PADDING"
      and gap: "\<forall>i. Suc i < length ws \<longrightarrow>
                 widget_x (ws ! Suc i) =
                   widget_x (ws ! i) + widget_width (ws ! i) + BUTTON_PADDING"
    by blast
  have l2: "length ws = 2" using len by (simp add: example_defs)
  then obtain b0 b1 where ws: "ws = [b0, b1]"
    by (cases ws; cases "tl ws"; cases "tl (tl ws)") auto
  have w0: "widget_toplevel b0 = Some 1 \<and> widget_width b0 = 58"
    using each ws by (auto simp: example_defs label_def BUTTON_PADDING_def BUTTON_MAX_WIDTH_def)
  have w1: "widget_toplevel b1 = Some 2 \<and> widget_width b1 = 44"
    using each ws by (auto simp: example_defs label_def BUTTON_PADDING_def BUTTON_MAX_WIDTH_def)
  have x0: "widget_x b0 = 8" using first ws by (simp add: BUTTON_PADDING_def)
  have x1: "widget_x b1 = 74" using gap ws w0 x0 by (simp add: BUTTON_PADDING_def)
  have "widgets example_two = []" by (simp add: example_defs)
  with eq ws have "widgets (snd (render_taskbar example_world 0 example_two)) = [b0, b1]"
    by simp
  with a w0 w1 x0 x1 show ?thesis by simp
qed

subsection \<open>Values within the range of int\<close>

text \<open>
  The cursor, the widths and the sums of the pass are \<^verbatim>\<open>int\<close> values of the
  program. The lemmas of this subsection bound them, for texts whose measured widths lie
  between 0 and \<open>m\<close>: a button is at most 200 wide and is followed by a padding of 8, the
  taskbar starts with a padding of 8, and a clock is its text and two paddings. So an item
  is at most \<open>208 * n + m + 24\<close> wide for \<open>n\<close> toplevels, and a spacer at most as wide
  as the panel.
\<close>

lemma btn_width_le: "btn_width w t \<le> 200"
  by (simp add: btn_width_def Let_def BUTTON_MAX_WIDTH_def)

lemma btn_width_nonneg:
  "0 \<le> fst (text_size w (label t)) \<Longrightarrow> 0 \<le> btn_width w t"
  by (simp add: btn_width_def Let_def BUTTON_PADDING_def BUTTON_MAX_WIDTH_def)

lemma taskbar_natural_loop_bounds:
  assumes "\<forall>s. 0 \<le> fst (text_size w s)"
  shows "acc \<le> taskbar_natural_loop w ts acc \<and>
         taskbar_natural_loop w ts acc \<le> acc + 208 * int (length ts)"
proof (induction ts arbitrary: acc)
  case Nil
  then show ?case by simp
next
  case (Cons t ts)
  have "0 \<le> btn_width w t" using assms by (simp add: btn_width_nonneg)
  moreover have "btn_width w t \<le> 200" by (rule btn_width_le)
  ultimately show ?case
    using Cons.IH [of "acc + (btn_width w t + BUTTON_PADDING)"]
    by (simp add: BUTTON_PADDING_def)
qed

lemma taskbar_natural_width_bounds:
  assumes "\<forall>s. 0 \<le> fst (text_size w s)"
  shows "0 \<le> taskbar_natural_width w p \<and>
         taskbar_natural_width w p \<le> 8 + 208 * int (length (toplevels p))"
  using taskbar_natural_loop_bounds [OF assms, of BUTTON_PADDING "toplevels p"]
  by (simp add: taskbar_natural_width_def BUTTON_PADDING_def)

lemma clock_natural_width_bounds:
  assumes "\<forall>s. 0 \<le> fst (text_size w s)"
    and "\<forall>k. fst (text_size w (strftime_HM (local_time w k))) \<le> m"
  shows "0 \<le> fst (clock_natural_width w p) \<and> fst (clock_natural_width w p) \<le> m + 16"
  using assms by (simp add: fst_clock_natural_width BUTTON_PADDING_def)

lemma fst_render_clock:
  "fst (render_clock w x p) =
     fst (text_size w (strftime_HM (local_time w (time_reads p)))) + 2 * BUTTON_PADDING"
  by (simp add: render_clock_def Let_def)

lemma render_clock_bounds:
  assumes "\<forall>s. 0 \<le> fst (text_size w s)"
    and "\<forall>k. fst (text_size w (strftime_HM (local_time w k))) \<le> m"
  shows "0 \<le> fst (render_clock w x p) \<and> fst (render_clock w x p) \<le> m + 16"
  using assms by (simp add: fst_render_clock BUTTON_PADDING_def)

lemma bound_m_nonneg:
  assumes "\<forall>s. 0 \<le> fst (text_size w s)"
    and "\<forall>k. fst (text_size w (strftime_HM (local_time w k))) \<le> m"
  shows "0 \<le> m"
proof -
  have "0 \<le> fst (text_size w (strftime_HM (local_time w 0)))" using assms(1) by blast
  also have "\<dots> \<le> m" using assms(2) by blast
  finally show ?thesis .
qed

lemma natural_width_bounds:
  assumes nn: "\<forall>s. 0 \<le> fst (text_size w s)"
    and cl: "\<forall>k. fst (text_size w (strftime_HM (local_time w k))) \<le> m"
  shows "0 \<le> natural_width w p items i \<and>
         natural_width w p items i \<le> 208 * int (length (toplevels p)) + m + 24"
proof -
  have m0: "0 \<le> m" using nn cl by (rule bound_m_nonneg)
  let ?q = "p\<lparr>time_reads := time_reads p + count_list (take i items) (CHR ''C'')\<rparr>"
  have t: "0 \<le> taskbar_natural_width w p \<and>
         taskbar_natural_width w p \<le> 8 + 208 * int (length (toplevels p))"
    using nn by (rule taskbar_natural_width_bounds)
  have c: "0 \<le> fst (clock_natural_width w ?q) \<and> fst (clock_natural_width w ?q) \<le> m + 16"
    using nn cl by (rule clock_natural_width_bounds)
  show ?thesis using t c m0 by (auto simp: natural_width_def)
qed

lemma natural_sum_bounds:
  assumes nn: "\<forall>s. 0 \<le> fst (text_size w s)"
    and cl: "\<forall>k. fst (text_size w (strftime_HM (local_time w k))) \<le> m"
  shows "0 \<le> (\<Sum>i<length items. natural_width w p items i) \<and>
         (\<Sum>i<length items. natural_width w p items i) \<le>
           int (length items) * (208 * int (length (toplevels p)) + m + 24)"
proof
  show "0 \<le> (\<Sum>i<length items. natural_width w p items i)"
    by (rule sum_nonneg) (simp add: natural_width_bounds [OF nn cl])
  have "(\<Sum>i<length items. natural_width w p items i) \<le>
          of_nat (card {..<length items}) * (208 * int (length (toplevels p)) + m + 24)"
    by (rule sum_bounded_above) (simp add: natural_width_bounds [OF nn cl])
  then show "(\<Sum>i<length items. natural_width w p items i) \<le>
           int (length items) * (208 * int (length (toplevels p)) + m + 24)"
    by simp
qed

lemma items_loop_bounds:
  assumes nn: "\<forall>s. 0 \<le> fst (text_size w s)"
    and cl: "\<forall>k. fst (text_size w (strftime_HM (local_time w k))) \<le> m"
    and sw: "0 \<le> sw"
  shows "x \<le> fst (items_loop w sw cs x p) \<and>
         fst (items_loop w sw cs x p) \<le>
           x + int (length cs) * (208 * int (length (toplevels p)) + m + 24 + sw)"
proof (induction cs arbitrary: x p)
  case Nil
  then show ?case by simp
next
  case (Cons c cs)
  have m0: "0 \<le> m" using nn cl by (rule bound_m_nonneg)
  let ?K = "208 * int (length (toplevels p)) + m + 24 + sw"
  have step: "int (length (c # cs)) * ?K = ?K + int (length cs) * ?K"
    by (simp add: algebra_simps)
  show ?case
  proof (cases "c = CHR ''T''")
    case True
    have t: "0 \<le> taskbar_natural_width w p \<and>
         taskbar_natural_width w p \<le> 8 + 208 * int (length (toplevels p))"
      using nn by (rule taskbar_natural_width_bounds)
    from Cons.IH [of "x + fst (render_taskbar w x p)" "snd (render_taskbar w x p)"]
    show ?thesis using True t m0 sw unfolding step
      by (simp add: case_prod_beta render_taskbar_advance)
  next
    case nT: False
    show ?thesis
    proof (cases "c = CHR ''C''")
      case True
      have r: "0 \<le> fst (render_clock w x p) \<and> fst (render_clock w x p) \<le> m + 16"
        using nn cl by (rule render_clock_bounds)
      from Cons.IH [of "x + fst (render_clock w x p)" "snd (render_clock w x p)"]
      show ?thesis using True r m0 sw unfolding step
        by (simp add: case_prod_beta)
    next
      case nC: False
      show ?thesis
      proof (cases "c = CHR ''S''")
        case True
        from Cons.IH [of "x + sw" p]
        show ?thesis using True m0 sw unfolding step by simp
      next
        case False
        from Cons.IH [of x p]
        show ?thesis using False nT nC m0 sw unfolding step by simp
      qed
    qed
  qed
qed

text \<open>
  When the bound of the pass holds for an item string that is not empty, the panel width
  is below \<open>2 ^ 31\<close>, so that \<^verbatim>\<open>(int)panel->width\<close> is the width.
\<close>

lemma width_fits:
  assumes nn: "\<forall>s. 0 \<le> fst (text_size w s)"
    and cl: "\<forall>k. fst (text_size w (strftime_HM (local_time w k))) \<le> m"
    and ne: "items \<noteq> []"
    and fits: "int (length items) *
                 (208 * int (length (toplevels p)) + m + 24 + uint (width p)) < 2 ^ 31"
  shows "uint (width p) < 2 ^ 31"
proof -
  let ?Z = "208 * int (length (toplevels p)) + m + 24 + uint (width p)"
  have m0: "0 \<le> m" using nn cl by (rule bound_m_nonneg)
  have z0: "0 \<le> ?Z" using m0 by simp
  have "1 \<le> int (length items)" using ne by (cases items) simp_all
  then have "1 * ?Z \<le> int (length items) * ?Z"
    using z0 by (rule mult_right_mono)
  then have le: "?Z \<le> int (length items) * ?Z"
    by (simp only: mult_1_left)
  have "uint (width p) \<le> ?Z" using m0 by simp
  also note le
  also note fits
  finally show ?thesis .
qed

lemma spacer_le_width:
  assumes nn: "\<forall>s. 0 \<le> fst (text_size w s)"
    and cl: "\<forall>k. fst (text_size w (strftime_HM (local_time w k))) \<le> m"
    and wd: "CHR ''S'' \<in> set items \<longrightarrow> uint (width p) < 2 ^ 31"
  shows "fst (spacer_width w items p) \<le> uint (width p)"
proof (cases "CHR ''S'' \<in> set items")
  case True
  with wd have "sint (width p) = uint (width p)" by (simp add: sint_width)
  moreover have "0 \<le> (\<Sum>i<length items. natural_width w p items i)"
    using natural_sum_bounds [OF nn cl] by blast
  ultimately show ?thesis using True by (simp add: fst_spacer_width)
next
  case False
  then show ?thesis by (simp add: fst_spacer_width)
qed

subsection \<open>The order of the widgets\<close>

lemma wfits_mono: "wfits x ws \<Longrightarrow> x \<le> y \<Longrightarrow> wfits y ws"
  by (auto simp: wfits_def list_all_iff)

lemma wfits_widget_add:
  assumes "wfits x (widgets p)" and "0 \<le> wd"
  shows "wfits (x + wd) (widgets (widget_add w x wd r p))"
  using assms
  by (auto simp: wfits_def widget_add_def sorted_wrt_append list_all_iff)

lemma wfits_taskbar_loop:
  assumes "\<forall>s. 0 \<le> fst (text_size w s)"
  shows "wfits x (widgets p) \<Longrightarrow>
         wfits (fst (render_taskbar_loop w ts x p)) (widgets (snd (render_taskbar_loop w ts x p)))"
proof (induction ts arbitrary: x p)
  case Nil
  then show ?case by simp
next
  case (Cons t ts)
  have nn: "0 \<le> btn_width w t" using assms by (simp add: btn_width_nonneg)
  have "wfits (x + btn_width w t) (widgets (widget_add w x (btn_width w t) (Some (handle t)) p))"
    using Cons.prems nn by (rule wfits_widget_add)
  then have "wfits (x + (btn_width w t + BUTTON_PADDING))
               (widgets (widget_add w x (btn_width w t) (Some (handle t)) p))"
    by (rule wfits_mono) (simp add: BUTTON_PADDING_def)
  then show ?case
    by (simp add: Let_def Cons.IH)
qed

lemma wfits_render_taskbar:
  assumes "\<forall>s. 0 \<le> fst (text_size w s)" and "wfits x (widgets p)"
  shows "wfits (x + fst (render_taskbar w x p)) (widgets (snd (render_taskbar w x p)))"
proof -
  have "wfits (x + BUTTON_PADDING) (widgets p)"
    using assms(2) by (rule wfits_mono) (simp add: BUTTON_PADDING_def)
  from wfits_taskbar_loop [OF assms(1) this, of "toplevels p"]
  show ?thesis by (simp add: fst_render_taskbar snd_render_taskbar)
qed

lemma wfits_render_clock:
  assumes "\<forall>s. 0 \<le> fst (text_size w s)" and "wfits x (widgets p)"
  shows "wfits (x + fst (render_clock w x p)) (widgets (snd (render_clock w x p)))"
proof -
  let ?wd = "fst (text_size w (strftime_HM (local_time w (time_reads p)))) + 2 * BUTTON_PADDING"
  have "0 \<le> ?wd" using assms(1) by (simp add: BUTTON_PADDING_def)
  with assms(2) have "wfits (x + ?wd)
     (widgets (widget_add w x ?wd None (p\<lparr>time_reads := Suc (time_reads p)\<rparr>)))"
    by (intro wfits_widget_add) simp_all
  then show ?thesis by (simp add: render_clock_def Let_def)
qed

lemma wfits_items_loop:
  assumes "\<forall>s. 0 \<le> fst (text_size w s)" and "0 \<le> sw"
  shows "wfits x (widgets p) \<Longrightarrow>
         wfits (fst (items_loop w sw cs x p)) (widgets (snd (items_loop w sw cs x p)))"
proof (induction cs arbitrary: x p)
  case Nil
  then show ?case by simp
next
  case (Cons c cs)
  show ?case
  proof (cases "c = CHR ''T''")
    case True
    from wfits_render_taskbar [OF assms(1) Cons.prems]
    show ?thesis using True by (simp add: case_prod_beta Cons.IH)
  next
    case nT: False
    show ?thesis
    proof (cases "c = CHR ''C''")
      case True
      from wfits_render_clock [OF assms(1) Cons.prems]
      show ?thesis using True by (simp add: case_prod_beta Cons.IH)
    next
      case nC: False
      show ?thesis
      proof (cases "c = CHR ''S''")
        case True
        have "wfits (x + sw) (widgets p)"
          using Cons.prems by (rule wfits_mono) (use assms(2) in simp)
        then show ?thesis using True by (simp add: Cons.IH)
      next
        case False
        then show ?thesis using nT nC Cons.prems by (simp add: Cons.IH)
      qed
    qed
  qed
qed

text \<open>
  The pass on an empty widget list: the widgets fit before a cursor that is itself below
  \<open>2 ^ 31\<close>.
\<close>

lemma wfits_render_items:
  assumes nn: "\<forall>s. 0 \<le> fst (text_size w s)"
    and cl: "\<forall>k. fst (text_size w (strftime_HM (local_time w k))) \<le> m"
    and empty: "widgets p = []"
    and fits: "int (case panel_items (conf p) of None \<Rightarrow> 0 | Some items \<Rightarrow> length items) *
                 (208 * int (length (toplevels p)) + m + 24 + uint (width p)) < 2 ^ 31"
  shows "\<exists>x. wfits x (widgets (render_items w p)) \<and> x < 2 ^ 31"
proof (cases "panel_items (conf p)")
  case None
  have "wfits 0 (widgets (render_items w p)) \<and> (0 :: int) < 2 ^ 31"
    using None empty by (simp add: render_items_def wfits_def)
  then show ?thesis ..
next
  case (Some items)
  let ?sw = "fst (spacer_width w items p)"
  let ?q = "snd (spacer_width w items p)"
  let ?K = "208 * int (length (toplevels p)) + m + 24"
  from fits Some have f: "int (length items) * (?K + uint (width p)) < 2 ^ 31"
    by simp
  have m0: "0 \<le> m" using nn cl by (rule bound_m_nonneg)
  have wd: "CHR ''S'' \<in> set items \<longrightarrow> uint (width p) < 2 ^ 31"
  proof
    assume "CHR ''S'' \<in> set items"
    then have "items \<noteq> []" by auto
    from width_fits [OF nn cl this f] show "uint (width p) < 2 ^ 31" .
  qed
  have sw0: "0 \<le> ?sw" by (rule spacer_width_nonneg)
  have swW: "?sw \<le> uint (width p)" using nn cl wd by (rule spacer_le_width)
  have "wfits 0 (widgets ?q)" using empty by (simp add: wfits_def)
  from wfits_items_loop [OF nn sw0 this, of items]
  have fit: "wfits (fst (items_loop w ?sw items 0 ?q)) (widgets (render_items w p))"
    using Some by (simp add: render_items_def case_prod_beta)
  have "fst (items_loop w ?sw items 0 ?q) \<le> 0 + int (length items) * (?K + ?sw)"
    using items_loop_bounds [OF nn cl sw0, of 0 items ?q] by simp
  also have "\<dots> \<le> int (length items) * (?K + uint (width p))"
    using swW by (simp add: mult_left_mono)
  also have "\<dots> < 2 ^ 31" by (rule f)
  finally have "fst (items_loop w ?sw items 0 ?q) < 2 ^ 31" .
  with fit show ?thesis by blast
qed

lemma widgets_render_to_cairo:
  "widgets (render_to_cairo w p) = widgets (render_items w (widgets_free (cairo_add
      [Set_operator OPERATOR_SOURCE, Set_source_u32 (background (conf p)), Paint] p)))"
  by (simp add: render_to_cairo_def Let_def)

lemma render_to_cairo_forgets:
  "render_to_cairo w (p\<lparr>widgets := old\<rparr>) = render_to_cairo w p"
  by (simp add: render_to_cairo_def Let_def cairo_add_def widgets_free_def)

lemma sorted_wrt_x:
  "sorted_wrt (\<lambda>a b. widget_x a + widget_width a \<le> widget_x b) ws \<Longrightarrow>
   list_all (\<lambda>a. 0 \<le> widget_width a) ws \<Longrightarrow> sorted (map widget_x ws)"
  by (induction ws) (auto simp: list_all_iff)

text \<open>
  Claim C9. Take a pass in which no \<^verbatim>\<open>int\<close> overflows: no measured text width is
  negative, the labels of the toplevels and the clock texts are at most \<open>m\<close> wide, and
  the number of items times the sum of the widest item (\<open>208\<close> for each toplevel, plus
  \<open>m + 24\<close>) and the panel width is below \<open>2 ^ 31\<close>. Then the widget list that
  \<^verbatim>\<open>render_to_cairo\<close> leaves is in the order of its \<open>x\<close> offsets, which do not
  decrease along the list; every widget ends at or before the start of every widget after
  it in the list, and no width is negative, so that no two of the intervals from \<open>x\<close> to
  \<open>x + width\<close> overlap; and every offset and every end of a widget lies from 0 to below
  \<open>2 ^ 31\<close>, as an \<^verbatim>\<open>int\<close> holds it. The pass does not depend on the widget list
  that it finds: that list is dropped before the first widget is added.
\<close>

theorem widgets_ordered_disjoint:
  assumes nonneg: "\<forall>s. 0 \<le> fst (text_size w s)"
    and labels: "\<forall>t\<in>set (toplevels p). fst (text_size w (label t)) \<le> m"
    and clocks: "\<forall>k. fst (text_size w (strftime_HM (local_time w k))) \<le> m"
    and fits: "int (case panel_items (conf p) of None \<Rightarrow> 0 | Some items \<Rightarrow> length items) *
                 (208 * int (length (toplevels p)) + m + 24 + uint (width p)) < 2 ^ 31"
  shows "sorted (map widget_x (widgets (render_to_cairo w p)))
         \<and> sorted_wrt (\<lambda>a b. widget_x a + widget_width a \<le> widget_x b)
             (widgets (render_to_cairo w p))
         \<and> list_all (\<lambda>a. 0 \<le> widget_width a) (widgets (render_to_cairo w p))
         \<and> list_all (\<lambda>a. 0 \<le> widget_x a \<and> widget_x a + widget_width a < 2 ^ 31)
             (widgets (render_to_cairo w p))
         \<and> render_to_cairo w (p\<lparr>widgets := old\<rparr>) = render_to_cairo w p"
proof -
  let ?p = "widgets_free (cairo_add
      [Set_operator OPERATOR_SOURCE, Set_source_u32 (background (conf p)), Paint] p)"
  have e: "widgets ?p = []" by (simp add: widgets_free_def)
  have f: "int (case panel_items (conf ?p) of None \<Rightarrow> 0 | Some items \<Rightarrow> length items) *
             (208 * int (length (toplevels ?p)) + m + 24 + uint (width ?p)) < 2 ^ 31"
    using fits by (simp add: widgets_free_def)
  from wfits_render_items [OF nonneg clocks e f]
  obtain x where x: "wfits x (widgets (render_to_cairo w p))" and b: "x < 2 ^ 31"
    by (auto simp: widgets_render_to_cairo)
  from x have s: "sorted_wrt (\<lambda>a b. widget_x a + widget_width a \<le> widget_x b)
             (widgets (render_to_cairo w p))"
    and n: "list_all (\<lambda>a. 0 \<le> widget_width a) (widgets (render_to_cairo w p))"
    by (auto simp: wfits_def list_all_iff)
  from x b have r: "list_all (\<lambda>a. 0 \<le> widget_x a \<and> widget_x a + widget_width a < 2 ^ 31)
             (widgets (render_to_cairo w p))"
    by (auto simp: wfits_def list_all_iff)
  from sorted_wrt_x [OF s n] s n r render_to_cairo_forgets show ?thesis by blast
qed

theorem widgets_ordered_disjoint_witness:
  "(\<forall>s. 0 \<le> fst (text_size example_world s))
   \<and> list_all (\<lambda>t. fst (text_size example_world (label t)) \<le> 42) (toplevels example_two)
   \<and> (\<forall>k. fst (text_size example_world (strftime_HM (local_time example_world k))) \<le> 42)
   \<and> panel_items (conf example_two) = Some ''TSC''
   \<and> int (length ''TSC'') * (208 * int (length (toplevels example_two)) + 42 + 24
        + uint (width example_two)) < 2 ^ 31
   \<and> sorted (map widget_x (widgets (render_to_cairo example_world example_two)))
   \<and> sorted_wrt (\<lambda>a b. widget_x a + widget_width a \<le> widget_x b)
       (widgets (render_to_cairo example_world example_two))
   \<and> list_all (\<lambda>a. 0 \<le> widget_width a) (widgets (render_to_cairo example_world example_two))
   \<and> list_all (\<lambda>a. 0 \<le> widget_x a \<and> widget_x a + widget_width a < 2 ^ 31)
       (widgets (render_to_cairo example_world example_two))
   \<and> render_to_cairo example_world
       (example_two\<lparr>widgets := [\<lparr>widget_x = 5, widget_width = 9, widget_toplevel = None\<rparr>]\<rparr>) =
       render_to_cairo example_world example_two
   \<and> map widget_x (widgets (render_to_cairo example_world example_two)) = [8, 74, 749]"
proof -
  have h1: "\<forall>s. 0 \<le> fst (text_size example_world s)"
    by (simp add: example_world_def)
  have h2: "\<forall>t\<in>set (toplevels example_two). fst (text_size example_world (label t)) \<le> 42"
    by (simp add: example_defs label_def)
  have h3: "\<forall>k. fst (text_size example_world (strftime_HM (local_time example_world k))) \<le> 42"
    by (simp add: example_world_def strftime_HM_def)
  have i: "panel_items (conf example_two) = Some ''TSC''"
    by (simp add: example_defs)
  have b: "int (length ''TSC'') * (208 * int (length (toplevels example_two)) + 42 + 24
        + uint (width example_two)) < 2 ^ 31"
    by (simp add: example_defs)
  have h4: "int (case panel_items (conf example_two) of None \<Rightarrow> 0
                 | Some items \<Rightarrow> length items) *
              (208 * int (length (toplevels example_two)) + 42 + 24
               + uint (width example_two)) < 2 ^ 31"
    using b by (simp add: i)
  have h2': "list_all (\<lambda>t. fst (text_size example_world (label t)) \<le> 42)
      (toplevels example_two)"
    using h2 by (simp add: list_all_iff)
  have v: "map widget_x (widgets (render_to_cairo example_world example_two)) = [8, 74, 749]"
    by (simp add: example_defs pass_defs)
  from widgets_ordered_disjoint [OF h1 h2 h3 h4] h1 h2' h3 i b v show ?thesis by blast
qed

subsection \<open>The spacer\<close>

text \<open>
  Claim C1. Take an item string that contains \<open>S\<close> and a pass in which no
  \<^verbatim>\<open>int\<close> overflows: no measured text width is negative, the labels of the
  toplevels and the clock texts are at most \<open>m\<close> wide, and the number of items times the
  sum of the widest item (\<open>208\<close> for each toplevel, plus \<open>m + 24\<close>) and the panel width
  is below \<open>2 ^ 31\<close>. Then the pass computes one spacer width: the panel width minus the
  sum of the natural widths of the \<open>T\<close> and \<open>C\<close> items of the string, or zero when that
  is negative. The panel width is below \<open>2 ^ 31\<close> and the sum lies from 0 to below
  \<open>2 ^ 31\<close>, so the cast and the subtraction of the program give these values. The pass
  lays the whole string out with this one value, and at every place where \<open>S\<close> stands in
  the string, the cursor after it is the cursor before it plus this value, both within
  the range of \<^verbatim>\<open>int\<close>.
\<close>

theorem spacer_width_leftover:
  assumes S: "CHR ''S'' \<in> set items"
    and nonneg: "\<forall>s. 0 \<le> fst (text_size w s)"
    and labels: "\<forall>t\<in>set (toplevels p). fst (text_size w (label t)) \<le> m"
    and clocks: "\<forall>k. fst (text_size w (strftime_HM (local_time w k))) \<le> m"
    and fits: "int (length items) *
                 (208 * int (length (toplevels p)) + m + 24 + uint (width p)) < 2 ^ 31"
  shows "fst (spacer_width w items p) =
           max 0 (uint (width p) - (\<Sum>i<length items. natural_width w p items i))
         \<and> uint (width p) < 2 ^ 31
         \<and> 0 \<le> (\<Sum>i<length items. natural_width w p items i)
         \<and> (\<Sum>i<length items. natural_width w p items i) < 2 ^ 31
         \<and> (panel_items (conf p) = Some items \<longrightarrow>
              render_items w p =
                snd (items_loop w (fst (spacer_width w items p)) items 0
                       (snd (spacer_width w items p))))
         \<and> (\<forall>pre post. items = pre @ CHR ''S'' # post \<longrightarrow>
              fst (items_loop w (fst (spacer_width w items p)) (pre @ [CHR ''S'']) 0
                     (snd (spacer_width w items p))) =
                fst (items_loop w (fst (spacer_width w items p)) pre 0
                       (snd (spacer_width w items p)))
                + fst (spacer_width w items p)
              \<and> 0 \<le> fst (items_loop w (fst (spacer_width w items p)) pre 0
                          (snd (spacer_width w items p)))
              \<and> fst (items_loop w (fst (spacer_width w items p)) pre 0
                       (snd (spacer_width w items p)))
                  + fst (spacer_width w items p) < 2 ^ 31)"
proof -
  let ?sw = "fst (spacer_width w items p)"
  let ?q = "snd (spacer_width w items p)"
  let ?K = "208 * int (length (toplevels p)) + m + 24"
  let ?F = "\<Sum>i<length items. natural_width w p items i"
  have m0: "0 \<le> m" using nonneg clocks by (rule bound_m_nonneg)
  have ne: "items \<noteq> []" using S by auto
  have W: "uint (width p) < 2 ^ 31" using nonneg clocks ne fits by (rule width_fits)
  have F: "0 \<le> ?F \<and> ?F \<le> int (length items) * ?K"
    using nonneg clocks by (rule natural_sum_bounds)
  have "int (length items) * ?K \<le> int (length items) * (?K + uint (width p))"
    by (simp add: mult_left_mono)
  with F fits have F2: "?F < 2 ^ 31" by linarith
  have eq: "?sw = max 0 (uint (width p) - ?F)"
    using S W by (simp add: fst_spacer_width sint_width)
  have sw0: "0 \<le> ?sw" by (rule spacer_width_nonneg)
  have wd: "CHR ''S'' \<in> set items \<longrightarrow> uint (width p) < 2 ^ 31"
    using W by blast
  have swW: "?sw \<le> uint (width p)"
    using nonneg clocks wd by (rule spacer_le_width)
  have pass: "panel_items (conf p) = Some items \<longrightarrow>
              render_items w p = snd (items_loop w ?sw items 0 ?q)"
    by (simp add: render_items_def case_prod_beta)
  have each: "\<forall>pre post. items = pre @ CHR ''S'' # post \<longrightarrow>
      fst (items_loop w ?sw (pre @ [CHR ''S'']) 0 ?q) = fst (items_loop w ?sw pre 0 ?q) + ?sw
      \<and> 0 \<le> fst (items_loop w ?sw pre 0 ?q)
      \<and> fst (items_loop w ?sw pre 0 ?q) + ?sw < 2 ^ 31"
  proof (intro allI impI)
    fix pre post
    assume split: "items = pre @ CHR ''S'' # post"
    have a: "fst (items_loop w ?sw (pre @ [CHR ''S'']) 0 ?q) =
               fst (items_loop w ?sw pre 0 ?q) + ?sw"
      by (simp add: items_loop_append)
    have lo: "0 \<le> fst (items_loop w ?sw pre 0 ?q)"
      using items_loop_bounds [OF nonneg clocks sw0, of 0 pre ?q] by simp
    have len: "int (length (pre @ [CHR ''S''])) \<le> int (length items)"
      using split by simp
    have k0: "0 \<le> ?K + ?sw" using m0 sw0 by simp
    have "fst (items_loop w ?sw (pre @ [CHR ''S'']) 0 ?q) \<le>
            0 + int (length (pre @ [CHR ''S''])) * (?K + ?sw)"
      using items_loop_bounds [OF nonneg clocks sw0, of 0 "pre @ [CHR ''S'']" ?q] by simp
    also have "\<dots> \<le> int (length items) * (?K + ?sw)"
      using len k0 by (simp add: mult_right_mono)
    also have "\<dots> \<le> int (length items) * (?K + uint (width p))"
      using swW by (simp add: mult_left_mono)
    also have "\<dots> < 2 ^ 31" using fits by simp
    finally have "fst (items_loop w ?sw (pre @ [CHR ''S'']) 0 ?q) < 2 ^ 31" .
    with a have hi: "fst (items_loop w ?sw pre 0 ?q) + ?sw < 2 ^ 31" by simp
    from a lo hi show "fst (items_loop w ?sw (pre @ [CHR ''S'']) 0 ?q) =
        fst (items_loop w ?sw pre 0 ?q) + ?sw
      \<and> 0 \<le> fst (items_loop w ?sw pre 0 ?q)
      \<and> fst (items_loop w ?sw pre 0 ?q) + ?sw < 2 ^ 31"
      by blast
  qed
  from eq W F F2 pass each show ?thesis by blast
qed

theorem spacer_width_leftover_witness:
  "CHR ''S'' \<in> set ''TSC''
   \<and> (\<forall>s. 0 \<le> fst (text_size example_world s))
   \<and> list_all (\<lambda>t. fst (text_size example_world (label t)) \<le> 42) (toplevels example_panel)
   \<and> (\<forall>k. fst (text_size example_world (strftime_HM (local_time example_world k))) \<le> 42)
   \<and> int (length ''TSC'') * (208 * int (length (toplevels example_panel)) + 42 + 24
        + uint (width example_panel)) < 2 ^ 31
   \<and> fst (spacer_width example_world ''TSC'' example_panel) = 675
   \<and> max 0 (uint (width example_panel)
        - (\<Sum>i<length ''TSC''. natural_width example_world example_panel ''TSC'' i)) = 675
   \<and> fst (items_loop example_world 675 ''TS'' 0 example_panel) =
       fst (items_loop example_world 675 ''T'' 0 example_panel) + 675
   \<and> fst (items_loop example_world 675 ''T'' 0 example_panel) + 675 < 2 ^ 31"
proof -
  have h: "CHR ''S'' \<in> set ''TSC''" by simp
  have h1: "\<forall>s. 0 \<le> fst (text_size example_world s)"
    by (simp add: example_world_def)
  have h2: "\<forall>t\<in>set (toplevels example_panel). fst (text_size example_world (label t)) \<le> 42"
    by (simp add: example_defs label_def)
  have h2': "list_all (\<lambda>t. fst (text_size example_world (label t)) \<le> 42)
      (toplevels example_panel)"
    using h2 by (simp add: list_all_iff)
  have h3: "\<forall>k. fst (text_size example_world (strftime_HM (local_time example_world k))) \<le> 42"
    by (simp add: example_world_def strftime_HM_def)
  have h4: "int (length ''TSC'') * (208 * int (length (toplevels example_panel)) + 42 + 24
        + uint (width example_panel)) < 2 ^ 31"
    by (simp add: example_defs)
  note T = spacer_width_leftover [OF h h1 h2 h3 h4]
  have v: "fst (spacer_width example_world ''TSC'' example_panel) = 675"
    by (simp add: example_defs pass_defs)
  from T have "fst (spacer_width example_world ''TSC'' example_panel) =
      max 0 (uint (width example_panel)
        - (\<Sum>i<length ''TSC''. natural_width example_world example_panel ''TSC'' i))"
    by blast
  with v have s: "max 0 (uint (width example_panel)
        - (\<Sum>i<length ''TSC''. natural_width example_world example_panel ''TSC'' i)) = 675"
    by simp
  have c: "fst (items_loop example_world 675 ''TS'' 0 example_panel) =
       fst (items_loop example_world 675 ''T'' 0 example_panel) + 675"
    by (simp add: case_prod_beta)
  have r: "fst (items_loop example_world 675 ''T'' 0 example_panel) + 675 < 2 ^ 31"
    by (simp add: example_defs pass_defs)
  from h h1 h2' h3 h4 v s c r show ?thesis by blast
qed

subsection \<open>The default items with one window\<close>

text \<open>
  Claim C3, as it is stated, fails on the concrete panel: with the items \<open>TSC\<close>, the one
  toplevel titled \<open>Editor\<close> and the width 800, the pass leaves two widgets, the button
  at 8 and the clock; the spacer adds no widget, and the clock widget ends at 800, not at
  800 minus the padding.
\<close>

theorem tsc_editor_counterexample:
  "panel_items (conf example_panel) = Some ''TSC''
   \<and> map title (toplevels example_panel) = [Some ''Editor'']
   \<and> width example_panel = 800
   \<and> widgets (render_to_cairo example_world example_panel) =
       [\<lparr>widget_x = 8, widget_width = 58, widget_toplevel = Some 1\<rparr>,
        \<lparr>widget_x = 749, widget_width = 51, widget_toplevel = None\<rparr>]
   \<and> widget_x (widgets (render_to_cairo example_world example_panel) ! 1)
       + widget_width (widgets (render_to_cairo example_world example_panel) ! 1)
       \<noteq> 800 - BUTTON_PADDING"
  by (simp add: example_defs pass_defs)

text \<open>
  Claim C3, amended. With the items \<open>TSC\<close>, one toplevel titled \<open>Editor\<close> and the
  panel width 800, when the two allocations of the pass succeed, the two reads of the
  clock in the pass give texts of the same width, and that width is at most 568 (so that
  the items fit in the panel), the pass leaves exactly two widgets: the button of the
  toplevel at \<open>x = 8\<close>, with the width of its label plus two paddings, capped at 200, and
  the clock, whose right edge is at 800. The spacer leaves no widget; it moves the cursor
  so that the clock ends at the right edge of the panel.
\<close>

theorem tsc_editor_layout:
  assumes items: "panel_items (conf p) = Some ''TSC''"
    and tops: "toplevels p = [t]"
    and ttl: "title t = Some ''Editor''"
    and wd: "width p = 800"
    and a0: "alloc_ok w (allocs p)"
    and a1: "alloc_ok w (Suc (allocs p))"
    and tw0: "fst (text_size w (strftime_HM (local_time w (time_reads p)))) = tw"
    and tw1: "fst (text_size w (strftime_HM (local_time w (Suc (time_reads p))))) = tw"
    and fit: "tw \<le> 568"
  shows "widgets (render_to_cairo w p) =
           [\<lparr>widget_x = 8,
             widget_width = min (fst (text_size w ''Editor'') + 2 * BUTTON_PADDING) BUTTON_MAX_WIDTH,
             widget_toplevel = Some (handle t)\<rparr>,
            \<lparr>widget_x = 800 - (tw + 2 * BUTTON_PADDING),
             widget_width = tw + 2 * BUTTON_PADDING,
             widget_toplevel = None\<rparr>]"
proof -
  have lab: "label t = ''Editor''" using ttl by (simp add: label_def)
  have bw: "btn_width w t \<le> 200"
    by (simp add: btn_width_def Let_def BUTTON_MAX_WIDTH_def)
  have "widgets (render_to_cairo w p) =
           [\<lparr>widget_x = 8, widget_width = btn_width w t, widget_toplevel = Some (handle t)\<rparr>,
            \<lparr>widget_x = 800 - (tw + 2 * BUTTON_PADDING),
             widget_width = tw + 2 * BUTTON_PADDING,
             widget_toplevel = None\<rparr>]"
    using items tops wd a0 a1 tw0 tw1 fit bw
    by (simp add: render_to_cairo_def render_items_def spacer_width_def cairo_add_def
        widgets_free_def render_taskbar_def render_clock_def widget_add_def
        taskbar_natural_width_def clock_natural_width_def Let_def BUTTON_PADDING_def)
  then show ?thesis
    by (simp add: btn_width_min lab)
qed

theorem tsc_editor_layout_witness:
  "panel_items (conf example_panel) = Some ''TSC''
   \<and> toplevels example_panel = [example_editor]
   \<and> title example_editor = Some ''Editor''
   \<and> width example_panel = 800
   \<and> alloc_ok example_world (allocs example_panel)
   \<and> alloc_ok example_world (Suc (allocs example_panel))
   \<and> fst (text_size example_world
        (strftime_HM (local_time example_world (time_reads example_panel)))) = 35
   \<and> fst (text_size example_world
        (strftime_HM (local_time example_world (Suc (time_reads example_panel))))) = 35
   \<and> (35 :: int) \<le> 568
   \<and> widgets (render_to_cairo example_world example_panel) =
       [\<lparr>widget_x = 8, widget_width = 58, widget_toplevel = Some 1\<rparr>,
        \<lparr>widget_x = 800 - 51, widget_width = 51, widget_toplevel = None\<rparr>]"
proof -
  have h1: "panel_items (conf example_panel) = Some ''TSC''"
    and h2: "toplevels example_panel = [example_editor]"
    and h3: "title example_editor = Some ''Editor''"
    and h4: "width example_panel = 800"
    and h5: "alloc_ok example_world (allocs example_panel)"
    and h6: "alloc_ok example_world (Suc (allocs example_panel))"
    by (simp_all add: example_defs)
  have h7: "fst (text_size example_world
        (strftime_HM (local_time example_world (time_reads example_panel)))) = 35"
    and h8: "fst (text_size example_world
        (strftime_HM (local_time example_world (Suc (time_reads example_panel))))) = 35"
    by (simp_all add: example_world_def strftime_HM_def)
  have h9: "(35 :: int) \<le> 568" by simp
  from tsc_editor_layout [OF h1 h2 h3 h4 h5 h6 h7 h8 h9]
  have "widgets (render_to_cairo example_world example_panel) =
       [\<lparr>widget_x = 8, widget_width = 58, widget_toplevel = Some 1\<rparr>,
        \<lparr>widget_x = 800 - 51, widget_width = 51, widget_toplevel = None\<rparr>]"
    by (simp add: example_world_def example_editor_def BUTTON_PADDING_def BUTTON_MAX_WIDTH_def)
  with h1 h2 h3 h4 h5 h6 h7 h8 h9 show ?thesis by blast
qed

subsection \<open>The separator line\<close>

text \<open>
  The last calls of every pass: the source is set to the text colour and a rectangle is
  filled that is as wide as the panel and one unit high, with its upper edge at the
  height of the panel.
\<close>

lemma separator_last:
  "\<exists>ops. cairo (render_to_cairo w p) =
     ops @ [Set_source_u32 (text_color (conf p)),
            Rectangle 0 (of_int (uint (height p))) (of_int (uint (width p))) 1, Fill]"
  by (simp add: render_to_cairo_def Let_def widgets_free_def)

text \<open>
  Claim C4 asks for the separator inside the rows of the panel, from 0 up to, not
  including, the height. On the concrete panel of height 30 the pass makes the calls
  below: the separator is the rectangle from row 30 to row 31, under the last row of the
  panel.
\<close>

theorem separator_below_panel:
  "height example_panel = 30
   \<and> cairo (render_to_cairo example_world example_panel) =
       [Set_operator OPERATOR_SOURCE, Set_source_u32 0x323232FF, Paint,
        Set_source_u32 0x4A4A4AFF, Rectangle 8 2 58 26, Fill,
        Save, Rectangle 16 0 42 30, Clip, Set_source_u32 0xFFFFFFFF, Move_to 16 7,
        Render_text ''Editor'', Restore,
        Set_source_u32 0xFFFFFFFF, Move_to 757 (15 / 2), Render_text ''09:05'',
        Set_source_u32 0xFFFFFFFF, Rectangle 0 30 800 1, Fill]"
  by code_simp

subsection \<open>Frames that are not rendered\<close>

lemma render_frame_skip:
  "\<not> run_display p \<or> width p = 0 \<or> height p = 0 \<Longrightarrow> render_frame w p = p"
  by (simp add: render_frame_def)

lemma quiet_step: "quiet p \<Longrightarrow> no_size e \<Longrightarrow> quiet (step w e p)"
proof (cases e)
  case (Layer_surface_configure wv hv)
  assume "quiet p" "no_size e"
  then show ?thesis using Layer_surface_configure
    by (auto simp: quiet_def layer_surface_configure_def render_frame_def)
next
  case (Pointer_button i st)
  assume "quiet p" "no_size e"
  then show ?thesis using Pointer_button
    by (auto simp: quiet_def wl_pointer_button_def split: option.splits)
qed (auto simp: quiet_def render_frame_def handle_toplevel_manager_toplevel_def
      handle_toplevel_title_def handle_toplevel_app_id_def on_toplevel_def
      handle_toplevel_done_def handle_toplevel_closed_def toplevel_destroy_def
      layer_surface_closed_def panel_destroy_def widgets_free_def output_scale_def
      split: option.splits)

lemma quiet_run: "quiet p \<Longrightarrow> list_all no_size evs \<Longrightarrow> quiet (run w evs p)"
  by (induction evs arbitrary: p) (simp_all add: quiet_step)

lemma quiet_init: "quiet (panel_init c ss)"
  by (simp add: quiet_def panel_init_def)

text \<open>
  Claim C10. When the panel does not run, or its width is zero, or its height is zero,
  \<^verbatim>\<open>render_frame\<close> returns the panel as it found it: no call on a cairo context, the
  widget list and the committed frame as before. And from the panel of
  \<^verbatim>\<open>main\<close>, after any events among which no configure event has both a width and a
  height other than zero, the widget list is empty, no frame has been committed, no
  request has been sent, and a button event of any seat sends nothing.
\<close>

theorem render_frame_skipped:
  "(\<not> run_display p \<or> width p = 0 \<or> height p = 0 \<longrightarrow> render_frame w p = p)
   \<and> (list_all no_size evs \<longrightarrow>
        widgets (run w evs (panel_init c ss)) = [] \<and>
        committed (run w evs (panel_init c ss)) = None \<and>
        requests (run w evs (panel_init c ss)) = [] \<and>
        wl_pointer_button w s state (run w evs (panel_init c ss)) = [])"
proof -
  have "list_all no_size evs \<Longrightarrow> quiet (run w evs (panel_init c ss))"
    by (rule quiet_run [OF quiet_init])
  then show ?thesis
    by (auto simp: render_frame_skip quiet_def wl_pointer_button_def)
qed

theorem render_frame_skipped_witness:
  "width (example_panel\<lparr>width := 0\<rparr>) = 0
   \<and> render_frame example_world (example_panel\<lparr>width := 0\<rparr>) = example_panel\<lparr>width := 0\<rparr>
   \<and> list_all no_size
       [Manager_toplevel 1, Toplevel_title 1 ''Editor'', Toplevel_done 1, Panel_run,
        Layer_surface_configure 0 30, Render, Pointer_motion 0 20 5, Pointer_button 0 1]
   \<and> widgets (run example_world
       [Manager_toplevel 1, Toplevel_title 1 ''Editor'', Toplevel_done 1, Panel_run,
        Layer_surface_configure 0 30, Render, Pointer_motion 0 20 5, Pointer_button 0 1]
       (panel_init example_conf example_seats)) = []
   \<and> requests (run example_world
       [Manager_toplevel 1, Toplevel_title 1 ''Editor'', Toplevel_done 1, Panel_run,
        Layer_surface_configure 0 30, Render, Pointer_motion 0 20 5, Pointer_button 0 1]
       (panel_init example_conf example_seats)) = []"
proof -
  have h1: "width (example_panel\<lparr>width := 0\<rparr>) = 0" by simp
  have h2: "list_all no_size
       [Manager_toplevel 1, Toplevel_title 1 ''Editor'', Toplevel_done 1, Panel_run,
        Layer_surface_configure 0 30, Render, Pointer_motion 0 20 5, Pointer_button 0 1]"
    by simp
  note T = render_frame_skipped [of "example_panel\<lparr>width := 0\<rparr>" example_world
      "[Manager_toplevel 1, Toplevel_title 1 ''Editor'', Toplevel_done 1, Panel_run,
        Layer_surface_configure 0 30, Render, Pointer_motion 0 20 5, Pointer_button 0 1]"
      example_conf example_seats]
  from T h1 h2 show ?thesis by blast
qed

end
